theory Spec2Isabelle
  imports Main "HOL-Library.Word" "HOL-Library.AList"
begin

unbundle bit_operations_syntax

section \<open>Data model of xwiilua.c\<close>

text \<open>
  The C module keeps a static table \<open>devh[NDEV]\<close> of device handles and talks to
  libxwiimote, to \<open>poll(2)\<close>, to \<open>stderr\<close> and to the Lua stack. The model passes
  one \<open>world\<close> value through every operation: the table, the messages printed so far,
  and the state of the library objects the table points to. What the library and the
  kernel answer is not computed by the module; it is data of the world (return codes,
  the pending events, the outcomes of the coming waits), so every theorem below holds for
  whatever they answer.
\<close>

subsection \<open>Constants\<close>

definition NDEV :: int where
  "NDEV = 10"

text \<open>
  Interface bits of \<open>enum xwii_iface_type\<close>. The header \<open>xwiimote.h\<close> belongs to
  libxwiimote, not to this module; the values are those of the library. The properties
  below use of them only that they are different bits.
\<close>

definition XWII_IFACE_CORE :: "32 word" where
  "XWII_IFACE_CORE = 0x000001"

definition XWII_IFACE_ACCEL :: "32 word" where
  "XWII_IFACE_ACCEL = 0x000002"

definition XWII_IFACE_IR :: "32 word" where
  "XWII_IFACE_IR = 0x000004"

definition XWII_IFACE_MOTION_PLUS :: "32 word" where
  "XWII_IFACE_MOTION_PLUS = 0x000100"

definition XWII_IFACE_NUNCHUK :: "32 word" where
  "XWII_IFACE_NUNCHUK = 0x000200"

definition XWII_IFACE_CLASSIC_CONTROLLER :: "32 word" where
  "XWII_IFACE_CLASSIC_CONTROLLER = 0x000400"

definition XWII_IFACE_BALANCE_BOARD :: "32 word" where
  "XWII_IFACE_BALANCE_BOARD = 0x000800"

definition XWII_IFACE_PRO_CONTROLLER :: "32 word" where
  "XWII_IFACE_PRO_CONTROLLER = 0x001000"

definition XWII_IFACE_WRITABLE :: "32 word" where
  "XWII_IFACE_WRITABLE = 0x010000"

text \<open>\<open>errno\<close> values (Linux) and the \<open>poll(2)\<close> event bit.\<close>

definition EINTR :: int where
  "EINTR = 4"

definition EAGAIN :: int where
  "EAGAIN = 11"

definition POLLIN :: int where
  "POLLIN = 1"

subsection \<open>Events\<close>

datatype xwii_event_type =
    XWII_EVENT_KEY
  | XWII_EVENT_ACCEL
  | XWII_EVENT_IR
  | XWII_EVENT_BALANCE_BOARD
  | XWII_EVENT_MOTION_PLUS
  | XWII_EVENT_PRO_CONTROLLER_KEY
  | XWII_EVENT_PRO_CONTROLLER_MOVE
  | XWII_EVENT_WATCH
  | XWII_EVENT_CLASSIC_CONTROLLER_KEY
  | XWII_EVENT_CLASSIC_CONTROLLER_MOVE
  | XWII_EVENT_NUNCHUK_KEY
  | XWII_EVENT_NUNCHUK_MOVE
  | XWII_EVENT_DRUMS_KEY
  | XWII_EVENT_DRUMS_MOVE
  | XWII_EVENT_GUITAR_KEY
  | XWII_EVENT_GUITAR_MOVE
  | XWII_EVENT_GONE

text \<open>
  The integer of an event type: its position in \<open>enum xwii_event_types\<close> of the
  library's header.
\<close>

fun event_code :: "xwii_event_type \<Rightarrow> int" where
  "event_code XWII_EVENT_KEY = 0"
| "event_code XWII_EVENT_ACCEL = 1"
| "event_code XWII_EVENT_IR = 2"
| "event_code XWII_EVENT_BALANCE_BOARD = 3"
| "event_code XWII_EVENT_MOTION_PLUS = 4"
| "event_code XWII_EVENT_PRO_CONTROLLER_KEY = 5"
| "event_code XWII_EVENT_PRO_CONTROLLER_MOVE = 6"
| "event_code XWII_EVENT_WATCH = 7"
| "event_code XWII_EVENT_CLASSIC_CONTROLLER_KEY = 8"
| "event_code XWII_EVENT_CLASSIC_CONTROLLER_MOVE = 9"
| "event_code XWII_EVENT_NUNCHUK_KEY = 10"
| "event_code XWII_EVENT_NUNCHUK_MOVE = 11"
| "event_code XWII_EVENT_DRUMS_KEY = 12"
| "event_code XWII_EVENT_DRUMS_MOVE = 13"
| "event_code XWII_EVENT_GUITAR_KEY = 14"
| "event_code XWII_EVENT_GUITAR_MOVE = 15"
| "event_code XWII_EVENT_GONE = 16"

text \<open>\<open>struct xwii_event_abs\<close>: three \<open>int32_t\<close>, stored as 32-bit words and read with \<open>sint\<close>.\<close>

record xwii_event_abs =
  abs_x :: "32 word"
  abs_y :: "32 word"
  abs_z :: "32 word"

definition zero_abs :: xwii_event_abs where
  "zero_abs = \<lparr>abs_x = 0, abs_y = 0, abs_z = 0\<rparr>"

text \<open>
  \<open>struct xwii_event\<close>: the type, the key payload (\<open>v.key.code\<close>, \<open>v.key.state\<close>) and
  the array payload \<open>v.abs[i]\<close>, a function of the index.
\<close>

record xwii_event =
  ev_type :: xwii_event_type
  key_code :: "32 word"
  key_state :: "32 word"
  ev_abs :: "nat \<Rightarrow> xwii_event_abs"

subsection \<open>The library object behind a handle\<close>

text \<open>
  A \<open>struct xwii_iface\<close> is opaque to the module. The model keeps of it what the module
  can observe: the masks that \<open>xwii_iface_available\<close> and \<open>xwii_iface_opened\<close>
  return, the descriptor, the results that \<open>xwii_iface_dispatch\<close> will deliver (each a
  return code and the event written when the code is 0; an exhausted list answers
  \<open>-EAGAIN\<close>), and what the other calls answer. No pointer to such an object is ever
  copied by the module, so the table slot holds the object itself and \<open>ident\<close> names
  the allocation.
\<close>

record xwii_iface =
  ident :: nat
  available :: "32 word"
  opened :: "32 word"
  open_fn :: "32 word \<Rightarrow> 32 word \<Rightarrow> int \<times> 32 word"
  watch_rc :: int
  get_fd :: int
  queue :: "(int \<times> xwii_event) list"
  battery :: "int \<times> 8 word"
  led_state :: "nat \<Rightarrow> bool"
  led_get_rc :: "nat \<Rightarrow> int"
  led_set_rc :: "nat \<Rightarrow> int"

subsection \<open>The device table and the world\<close>

text \<open>\<open>devhandle\<close>, with the one \<open>struct pollfd\<close> spelled out as its two input fields.\<close>

record devhandle =
  iface :: xwii_iface
  fds_num :: int
  fds_fd :: int
  fds_events :: int
  accel :: xwii_event_abs
  motion :: xwii_event_abs
  nunchuk_accel :: xwii_event_abs
  nunchuk_stick :: xwii_event_abs
  ir :: "nat \<Rightarrow> xwii_event_abs"
  pro :: "nat \<Rightarrow> xwii_event_abs"
  board :: "nat \<Rightarrow> xwii_event_abs"

text \<open>The lines the module prints on \<open>stderr\<close>, one constructor per format string.\<close>

datatype log_msg =
    List_cannot_create_monitor
  | Open_cannot_find int
  | Open_cannot_create string int
  | Open_cannot_open string int
  | Open_cannot_watch string int
  | Get_battery_cannot_read
  | Get_leds_cannot_read
  | Set_leds_cannot_write
  | Poll_cannot_poll int
  | Poll_read_failed int
  | Poll_cannot_open int int
  | Poll_hotplug int
  | Poll_removed int

text \<open>
  The world: the table (slot \<open>i\<close> is \<open>devh[i]\<close>), \<open>stderr\<close>, and the environment.
  \<open>monitor\<close> is what a fresh enumeration yields (\<open>None\<close>: \<open>xwii_monitor_new\<close> returns
  NULL); \<open>hw\<close> is what \<open>xwii_iface_new\<close> answers for a path (return code and the new
  object); \<open>live\<close> lists the objects created and not yet released; \<open>waits\<close> are the
  outcomes \<open>(ret, errno)\<close> of the coming \<open>poll(2)\<close> calls, in order. The timeout of
  the wait is \<open>-1\<close>: when no outcome is left, the wait never returns.
\<close>

record world =
  devh :: "nat \<Rightarrow> devhandle"
  stderr :: "log_msg list"
  monitor :: "string list option"
  hw :: "string \<Rightarrow> int \<times> xwii_iface"
  next_id :: nat
  live :: "nat list"
  waits :: "(int \<times> int) list"

subsection \<open>Lua values\<close>

text \<open>
  What the module pushes: nil, integers, strings, and tables filled by \<open>lua_settable\<close>
  with integer keys. A C function's result is the list of values it returns to Lua
  (\<open>return 0\<close> is the empty list).
\<close>

datatype lua_value =
    LNil
  | LInteger int
  | LString string
  | LTable "(int \<times> lua_value) list"

definition lua_settable :: "(int \<times> lua_value) list \<Rightarrow> int \<Rightarrow> lua_value \<Rightarrow> (int \<times> lua_value) list" where
  "lua_settable t k v = AList.update k v t"

section \<open>The library calls, as the module sees them\<close>

text \<open>
  \<open>xwii_iface_new(&dev, path)\<close>: the return code, the object \<open>dev\<close> points to
  afterwards (the new one on success, the old one otherwise) and the world, where a new
  object is recorded as live.
\<close>

definition xwii_iface_new :: "xwii_iface \<Rightarrow> string \<Rightarrow> world \<Rightarrow> int \<times> xwii_iface \<times> world" where
  "xwii_iface_new dev path s =
     (case hw s path of (ret, obj) \<Rightarrow>
        if ret \<noteq> 0 then (ret, dev, s)
        else (0, obj\<lparr>ident := next_id s\<rparr>,
              s\<lparr>next_id := Suc (next_id s), live := next_id s # live s\<rparr>))"

definition xwii_iface_unref :: "xwii_iface \<Rightarrow> world \<Rightarrow> world" where
  "xwii_iface_unref dev s = s\<lparr>live := remove1 (ident dev) (live s)\<rparr>"

definition xwii_iface_open :: "xwii_iface \<Rightarrow> 32 word \<Rightarrow> int \<times> xwii_iface" where
  "xwii_iface_open dev ifaces =
     (case open_fn dev ifaces (opened dev) of (ret, m) \<Rightarrow> (ret, dev\<lparr>opened := m\<rparr>))"

definition xwii_iface_close :: "xwii_iface \<Rightarrow> 32 word \<Rightarrow> xwii_iface" where
  "xwii_iface_close dev ifaces = dev\<lparr>opened := opened dev AND NOT ifaces\<rparr>"

definition xwii_iface_get_led :: "xwii_iface \<Rightarrow> nat \<Rightarrow> int \<times> bool" where
  "xwii_iface_get_led dev led = (led_get_rc dev led, led_state dev led)"


text \<open>\<open>XWII_LED(n)\<close> is indicator number \<open>n\<close>, from 1 to 4.\<close>

definition XWII_LED :: "nat \<Rightarrow> nat" where
  "XWII_LED n = n"

section \<open>The module\<close>

text \<open>
  The handle argument \<open>num\<close> is the C \<open>int\<close> after \<open>(int)luaL_checknumber(L, 1)\<close>.
  \<open>slot num\<close> is the index \<open>num-1\<close>, only read under the range check of the source.
\<close>

definition slot :: "int \<Rightarrow> nat" where
  "slot num = nat (num - 1)"

definition set_slot :: "int \<Rightarrow> devhandle \<Rightarrow> world \<Rightarrow> world" where
  "set_slot num d s = s\<lparr>devh := (devh s)(slot num := d)\<rparr>"

definition fprintf :: "log_msg \<Rightarrow> world \<Rightarrow> world" where
  "fprintf m s = s\<lparr>stderr := stderr s @ [m]\<rparr>"

subsection \<open>l_xwii_list and get_dev\<close>

fun list_loop :: "int \<Rightarrow> string list \<Rightarrow> (int \<times> lua_value) list \<Rightarrow> (int \<times> lua_value) list" where
  "list_loop i [] t = t"
| "list_loop i (ent # ents) t = list_loop (i + 1) ents (lua_settable t (i + 1) (LString ent))"

definition l_xwii_list :: "world \<Rightarrow> lua_value list \<times> world" where
  "l_xwii_list s =
     (case monitor s of
        None \<Rightarrow> ([], fprintf List_cannot_create_monitor s)
      | Some ents \<Rightarrow> ([LTable (list_loop 0 ents [])], s))"

fun get_dev_loop :: "int \<Rightarrow> int \<Rightarrow> string list \<Rightarrow> string option" where
  "get_dev_loop i num [] = None"
| "get_dev_loop i num (ent # ents) =
     (if i + 1 = num then Some ent else get_dev_loop (i + 1) num ents)"

definition get_dev :: "int \<Rightarrow> world \<Rightarrow> string option" where
  "get_dev num s =
     (case monitor s of
        None \<Rightarrow> None
      | Some ents \<Rightarrow> get_dev_loop 0 num ents)"

subsection \<open>l_xwii_open, l_xwii_close, l_xwii_info\<close>

definition l_xwii_open :: "int \<Rightarrow> world \<Rightarrow> lua_value list \<times> world" where
  "l_xwii_open num s =
     (case (if num < 1 \<or> num > NDEV then None else get_dev num s) of
        None \<Rightarrow> ([LInteger 0], fprintf (Open_cannot_find num) s)
      | Some path \<Rightarrow>
          if fds_num (devh s (slot num)) \<noteq> 0 then ([LInteger 0], s)
          else
            (case xwii_iface_new (iface (devh s (slot num))) path s of (ret, dev, s1) \<Rightarrow>
               if ret \<noteq> 0 then ([LInteger 0], fprintf (Open_cannot_create path ret) s1)
               else
                 (case xwii_iface_open dev (available dev OR XWII_IFACE_WRITABLE) of (ret2, dev2) \<Rightarrow>
                    if ret2 \<noteq> 0 then
                      ([LInteger 0],
                       xwii_iface_unref dev2
                         (set_slot num ((devh s1 (slot num))\<lparr>iface := dev2\<rparr>)
                            (fprintf (Open_cannot_open path ret2) s1)))
                    else
                      (let s2 = (if watch_rc dev2 \<noteq> 0
                                 then fprintf (Open_cannot_watch path (watch_rc dev2)) s1 else s1);
                           d = (devh s2 (slot num))
                                 \<lparr>iface := dev2,
                                  accel := zero_abs,
                                  motion := zero_abs,
                                  nunchuk_accel := zero_abs,
                                  nunchuk_stick := zero_abs,
                                  fds_fd := get_fd dev2,
                                  fds_events := POLLIN,
                                  fds_num := 1\<rparr>
                       in ([LInteger num], set_slot num d s2)))))"

definition l_xwii_close :: "int \<Rightarrow> world \<Rightarrow> lua_value list \<times> world" where
  "l_xwii_close num s =
     (if num \<ge> 1 \<and> num \<le> NDEV \<and> fds_num (devh s (slot num)) \<noteq> 0 then
        (let d = devh s (slot num);
             dev = xwii_iface_close (iface d) (opened (iface d))
         in ([], set_slot num (d\<lparr>iface := dev, fds_num := 0\<rparr>) (xwii_iface_unref dev s)))
      else ([], s))"

definition l_xwii_info :: "int \<Rightarrow> world \<Rightarrow> lua_value list" where
  "l_xwii_info num s =
     (if num \<ge> 1 \<and> num \<le> NDEV \<and> fds_num (devh s (slot num)) \<noteq> 0
      then [LInteger (uint (available (iface (devh s (slot num)))))]
      else [LInteger 0])"

subsection \<open>Battery and indicators\<close>

definition l_xwii_get_battery :: "int \<Rightarrow> world \<Rightarrow> lua_value list \<times> world" where
  "l_xwii_get_battery num s =
     (if num \<ge> 1 \<and> num \<le> NDEV \<and> fds_num (devh s (slot num)) \<noteq> 0 then
        (case battery (iface (devh s (slot num))) of (ret, capacity) \<Rightarrow>
           if ret \<noteq> 0 then ([LNil], fprintf Get_battery_cannot_read s)
           else ([LInteger (uint capacity)], s))
      else ([LInteger 0], s))"

text \<open>The loop \<open>for (i = ret = 0; i < 4 && !ret; i++)\<close> over the indices still to visit;
  \<open>msk\<close> is the source's \<open>mask\<close>.\<close>

fun get_leds_loop :: "xwii_iface \<Rightarrow> nat list \<Rightarrow> int \<times> 8 word \<Rightarrow> int \<times> 8 word" where
  "get_leds_loop dev [] (ret, msk) = (ret, msk)"
| "get_leds_loop dev (i # rest) (ret, msk) =
     (if ret \<noteq> 0 then (ret, msk)
      else
        (case xwii_iface_get_led dev (XWII_LED (i + 1)) of (ret', flag) \<Rightarrow>
           get_leds_loop dev rest
             (ret', if ret' = 0 \<and> flag then msk OR push_bit i 1 else msk)))"

definition l_xwii_get_leds :: "int \<Rightarrow> world \<Rightarrow> lua_value list \<times> world" where
  "l_xwii_get_leds num s =
     (if num \<ge> 1 \<and> num \<le> NDEV \<and> fds_num (devh s (slot num)) \<noteq> 0 then
        (case get_leds_loop (iface (devh s (slot num))) [0, 1, 2, 3] (0, 0) of (ret, msk) \<Rightarrow>
           if ret \<noteq> 0 then ([LNil], fprintf Get_leds_cannot_read s)
           else ([LInteger (uint msk)], s))
      else ([LInteger 0], s))"



subsection \<open>l_xwii_poll\<close>

text \<open>The table of a key event: \<open>{code, state}\<close> under the keys 1 and 2.\<close>

definition key_table :: "xwii_event \<Rightarrow> lua_value" where
  "key_table event =
     LTable (lua_settable (lua_settable [] 1 (LInteger (uint (key_code event))))
               2 (LInteger (uint (key_state event))))"

text \<open>The loops \<open>for (i = 0; i < 4; i++) dst[i] = event.v.abs[i]\<close>.\<close>

definition copy_abs :: "nat list \<Rightarrow> (nat \<Rightarrow> xwii_event_abs) \<Rightarrow> (nat \<Rightarrow> xwii_event_abs) \<Rightarrow> nat \<Rightarrow> xwii_event_abs" where
  "copy_abs idx src dst = fold (\<lambda>i f. f(i := src i)) idx dst"

text \<open>
  The \<open>switch (event.type)\<close> of the loop, on the slot and \<open>stderr\<close>. The first
  component is \<open>Some\<close> of the values returned to Lua where the branch returns from the
  function, and \<open>None\<close> where it ends with \<open>break\<close> and the loop goes on.
\<close>

definition switch_event :: "int \<Rightarrow> xwii_event \<Rightarrow> devhandle \<times> log_msg list \<Rightarrow> lua_value list option \<times> devhandle \<times> log_msg list" where
  "switch_event num event st =
     (case st of (d, lg) \<Rightarrow>
       (case ev_type event of
          XWII_EVENT_KEY \<Rightarrow> (Some [key_table event], d, lg)
        | XWII_EVENT_CLASSIC_CONTROLLER_KEY \<Rightarrow> (Some [key_table event], d, lg)
        | XWII_EVENT_PRO_CONTROLLER_KEY \<Rightarrow> (Some [key_table event], d, lg)
        | XWII_EVENT_NUNCHUK_KEY \<Rightarrow> (Some [key_table event], d, lg)
        | XWII_EVENT_DRUMS_KEY \<Rightarrow> (Some [key_table event], d, lg)
        | XWII_EVENT_GUITAR_KEY \<Rightarrow> (Some [key_table event], d, lg)
        | XWII_EVENT_WATCH \<Rightarrow>
            (case xwii_iface_open (iface d) (available (iface d)) of (ret, dev) \<Rightarrow>
               (None, d\<lparr>iface := dev\<rparr>,
                lg @ [if ret \<noteq> 0 then Poll_cannot_open num ret else Poll_hotplug num]))
        | XWII_EVENT_GONE \<Rightarrow>
            (Some [LInteger (event_code (ev_type event))],
             d\<lparr>fds_fd := - 1, fds_events := 0, fds_num := 0\<rparr>,
             lg @ [Poll_removed num])
        | XWII_EVENT_ACCEL \<Rightarrow> (None, d\<lparr>accel := ev_abs event 0\<rparr>, lg)
        | XWII_EVENT_IR \<Rightarrow> (None, d\<lparr>ir := copy_abs [0, 1, 2, 3] (ev_abs event) (ir d)\<rparr>, lg)
        | XWII_EVENT_BALANCE_BOARD \<Rightarrow>
            (None, d\<lparr>board := copy_abs [0, 1, 2, 3] (ev_abs event) (board d)\<rparr>, lg)
        | XWII_EVENT_CLASSIC_CONTROLLER_MOVE \<Rightarrow>
            (None, d\<lparr>pro := ((pro d)(0 := ev_abs event 0))(1 := ev_abs event 1)\<rparr>, lg)
        | XWII_EVENT_PRO_CONTROLLER_MOVE \<Rightarrow>
            (None, d\<lparr>pro := ((pro d)(0 := ev_abs event 0))(1 := ev_abs event 1)\<rparr>, lg)
        | XWII_EVENT_MOTION_PLUS \<Rightarrow> (None, d\<lparr>motion := ev_abs event 0\<rparr>, lg)
        | XWII_EVENT_NUNCHUK_MOVE \<Rightarrow>
            (None, d\<lparr>nunchuk_accel := ev_abs event 1, nunchuk_stick := ev_abs event 0\<rparr>, lg)
        | _ \<Rightarrow> (None, d, lg)))"

text \<open>
  The loop \<open>while (1)\<close>. Each round is one \<open>xwii_iface_dispatch\<close>: it takes the next
  pending result \<open>(ret, event)\<close> of the object, or answers \<open>-EAGAIN\<close> when none is
  pending. The pending results are passed as the list \<open>q\<close>, and what is left of them
  is returned with the values for Lua, the slot and \<open>stderr\<close>. A non-zero \<open>ret\<close>
  leaves the loop, and the function ends with \<open>lua_pushnil\<close>.
\<close>

fun drain :: "int \<Rightarrow> (int \<times> xwii_event) list \<Rightarrow> devhandle \<times> log_msg list \<Rightarrow> lua_value list \<times> (int \<times> xwii_event) list \<times> devhandle \<times> log_msg list" where
  "drain num [] (d, lg) = ([LNil], [], d, lg)"
| "drain num ((ret, event) # q) (d, lg) =
     (if ret \<noteq> 0 then
        ([LNil], q, d, if ret \<noteq> - EAGAIN then lg @ [Poll_read_failed ret] else lg)
      else
        (case switch_event num event (d, lg) of
           (Some r, d', lg') \<Rightarrow> (r, q, d', lg')
         | (None, d', lg') \<Rightarrow> drain num q (d', lg')))"

text \<open>
  \<open>l_xwii_poll\<close>. The wait \<open>poll(fds, fds_num, -1)\<close> takes the next outcome of
  \<open>waits\<close>; with none left it does not return, and the result is \<open>None\<close>.
\<close>

definition l_xwii_poll :: "int \<Rightarrow> world \<Rightarrow> (lua_value list \<times> world) option" where
  "l_xwii_poll num s =
     (if num \<ge> 1 \<and> num \<le> NDEV \<and> fds_num (devh s (slot num)) \<noteq> 0 then
        (case waits s of
           [] \<Rightarrow> None
         | (ret, errno) # ws \<Rightarrow>
             (let s1 = s\<lparr>waits := ws\<rparr>
              in if ret < 0 then
                   Some ([LNil],
                         if errno \<noteq> EINTR then fprintf (Poll_cannot_poll (- errno)) s1 else s1)
                 else
                   (case drain num (queue (iface (devh s1 (slot num))))
                           (devh s1 (slot num), stderr s1) of
                      (r, q, d, lg) \<Rightarrow>
                        Some (r, set_slot num (d\<lparr>iface := (iface d)\<lparr>queue := q\<rparr>\<rparr>)
                                   (s1\<lparr>stderr := lg\<rparr>)))))
      else Some ([LNil], s))"

subsection \<open>The motion accessors\<close>

definition push_xyz :: "xwii_event_abs \<Rightarrow> lua_value" where
  "push_xyz a =
     LTable (lua_settable (lua_settable (lua_settable [] 1 (LInteger (sint (abs_x a))))
               2 (LInteger (sint (abs_y a))))
               3 (LInteger (sint (abs_z a))))"

definition push_xy :: "xwii_event_abs \<Rightarrow> lua_value" where
  "push_xy a =
     LTable (lua_settable (lua_settable [] 1 (LInteger (sint (abs_x a))))
               2 (LInteger (sint (abs_y a))))"

text \<open>The loops of \<open>l_xwii_ir\<close> and \<open>l_xwii_pro_stick\<close>: keys \<open>2*i+1\<close> and \<open>2*i+2\<close>.\<close>

definition push_pairs :: "nat list \<Rightarrow> (nat \<Rightarrow> xwii_event_abs) \<Rightarrow> lua_value" where
  "push_pairs idx a =
     LTable (fold (\<lambda>i t. lua_settable (lua_settable t (2 * int i + 1) (LInteger (sint (abs_x (a i)))))
                            (2 * int i + 2) (LInteger (sint (abs_y (a i)))))
               idx [])"

text \<open>The loop of \<open>l_xwii_board\<close>: key \<open>i+1\<close>, value \<open>board[i].x\<close>.\<close>

definition push_xs :: "nat list \<Rightarrow> (nat \<Rightarrow> xwii_event_abs) \<Rightarrow> lua_value" where
  "push_xs idx a =
     LTable (fold (\<lambda>i t. lua_settable t (int i + 1) (LInteger (sint (abs_x (a i))))) idx [])"

definition l_xwii_accel :: "int \<Rightarrow> world \<Rightarrow> lua_value list" where
  "l_xwii_accel num s =
     (if num \<ge> 1 \<and> num \<le> NDEV \<and> fds_num (devh s (slot num)) \<noteq> 0 \<and>
         opened (iface (devh s (slot num))) AND XWII_IFACE_CORE \<noteq> 0
      then [push_xyz (accel (devh s (slot num)))]
      else [LNil])"

definition l_xwii_ir :: "int \<Rightarrow> world \<Rightarrow> lua_value list" where
  "l_xwii_ir num s =
     (if num \<ge> 1 \<and> num \<le> NDEV \<and> fds_num (devh s (slot num)) \<noteq> 0 \<and>
         opened (iface (devh s (slot num))) AND XWII_IFACE_CORE \<noteq> 0
      then [push_pairs [0, 1, 2, 3] (ir (devh s (slot num)))]
      else [LNil])"

definition l_xwii_motion_plus :: "int \<Rightarrow> world \<Rightarrow> lua_value list" where
  "l_xwii_motion_plus num s =
     (if num \<ge> 1 \<and> num \<le> NDEV \<and> fds_num (devh s (slot num)) \<noteq> 0 \<and>
         opened (iface (devh s (slot num))) AND XWII_IFACE_MOTION_PLUS \<noteq> 0
      then [push_xyz (motion (devh s (slot num)))]
      else [LNil])"

definition l_xwii_nunchuk_accel :: "int \<Rightarrow> world \<Rightarrow> lua_value list" where
  "l_xwii_nunchuk_accel num s =
     (if num \<ge> 1 \<and> num \<le> NDEV \<and> fds_num (devh s (slot num)) \<noteq> 0 \<and>
         opened (iface (devh s (slot num))) AND XWII_IFACE_NUNCHUK \<noteq> 0
      then [push_xyz (nunchuk_accel (devh s (slot num)))]
      else [LNil])"

definition l_xwii_nunchuk_stick :: "int \<Rightarrow> world \<Rightarrow> lua_value list" where
  "l_xwii_nunchuk_stick num s =
     (if num \<ge> 1 \<and> num \<le> NDEV \<and> fds_num (devh s (slot num)) \<noteq> 0 \<and>
         opened (iface (devh s (slot num))) AND XWII_IFACE_NUNCHUK \<noteq> 0
      then [push_xy (nunchuk_stick (devh s (slot num)))]
      else [LNil])"

definition l_xwii_pro_stick :: "int \<Rightarrow> world \<Rightarrow> lua_value list" where
  "l_xwii_pro_stick num s =
     (if num \<ge> 1 \<and> num \<le> NDEV \<and> fds_num (devh s (slot num)) \<noteq> 0 \<and>
         opened (iface (devh s (slot num))) AND XWII_IFACE_CORE \<noteq> 0
      then [push_pairs [0, 1] (pro (devh s (slot num)))]
      else [LNil])"

definition l_xwii_board :: "int \<Rightarrow> world \<Rightarrow> lua_value list" where
  "l_xwii_board num s =
     (if num \<ge> 1 \<and> num \<le> NDEV \<and> fds_num (devh s (slot num)) \<noteq> 0 \<and>
         opened (iface (devh s (slot num))) AND XWII_IFACE_CORE \<noteq> 0
      then [push_xs [0, 1, 2, 3] (board (devh s (slot num)))]
      else [LNil])"

section \<open>The Pd object on top of the module\<close>

text \<open>
  The methods of the \<open>xwii\<close> object (the Pd-Lua class built on the module) for the
  device list and for the two stick and board messages. A Lua assignment
  \<open>local t = f()\<close> keeps the first value returned, or nil when there is none; the length
  operator raises an error on nil and on an integer. An outlet message is the outlet
  number, the selector and the value sent; \<open>None\<close> is no message.
\<close>

datatype lua_error = Attempt_to_get_length

definition first_value :: "lua_value list \<Rightarrow> lua_value" where
  "first_value vs = (case vs of [] \<Rightarrow> LNil | v # _ \<Rightarrow> v)"

definition lua_len :: "lua_value \<Rightarrow> lua_error + nat" where
  "lua_len v =
     (case v of
        LTable t \<Rightarrow> Inr (length t)
      | LString str \<Rightarrow> Inr (length str)
      | _ \<Rightarrow> Inl Attempt_to_get_length)"

definition in_1_devlist :: "world \<Rightarrow> (lua_error + (nat \<times> string \<times> lua_value) option) \<times> world" where
  "in_1_devlist s =
     (case l_xwii_list s of (vs, s1) \<Rightarrow>
        (let t = first_value vs
         in case lua_len t of
              Inl e \<Rightarrow> (Inl e, s1)
            | Inr n \<Rightarrow> (Inr (if n > 0 then Some (2, ''devlist'', t) else None), s1)))"

definition in_1_prostick :: "int \<Rightarrow> world \<Rightarrow> (nat \<times> string \<times> lua_value) option" where
  "in_1_prostick self_d s =
     (let t = first_value (l_xwii_pro_stick self_d s)
      in if t \<noteq> LNil then Some (2, ''prostick'', t) else None)"

definition in_1_board :: "int \<Rightarrow> world \<Rightarrow> (nat \<times> string \<times> lua_value) option" where
  "in_1_board self_d s =
     (let t = first_value (l_xwii_pro_stick self_d s)
      in if t \<noteq> LNil then Some (2, ''board'', t) else None)"

section \<open>Notions used to state the properties\<close>

text \<open>The six event types of the first group of \<open>case\<close> labels: the key events.\<close>

definition is_key :: "xwii_event_type \<Rightarrow> bool" where
  "is_key t =
     (t = XWII_EVENT_KEY \<or> t = XWII_EVENT_CLASSIC_CONTROLLER_KEY \<or>
      t = XWII_EVENT_PRO_CONTROLLER_KEY \<or> t = XWII_EVENT_NUNCHUK_KEY \<or>
      t = XWII_EVENT_DRUMS_KEY \<or> t = XWII_EVENT_GUITAR_KEY)"

text \<open>
  A pending result that the loop consumes without leaving: decoded (\<open>ret = 0\<close>), not a
  key event and not the removal.
\<close>

definition passes :: "int \<times> xwii_event \<Rightarrow> bool" where
  "passes r = (fst r = 0 \<and> \<not> is_key (ev_type (snd r)) \<and> ev_type (snd r) \<noteq> XWII_EVENT_GONE)"

text \<open>The pending results of the object behind handle \<open>num\<close>.\<close>

definition pending :: "int \<Rightarrow> world \<Rightarrow> (int \<times> xwii_event) list" where
  "pending num s = queue (iface (devh s (slot num)))"

text \<open>The decoded key events among the pending results, in order.\<close>

definition keys_of :: "(int \<times> xwii_event) list \<Rightarrow> xwii_event list" where
  "keys_of q = map snd (filter (\<lambda>r. fst r = 0 \<and> is_key (ev_type (snd r))) q)"

text \<open>The slot and \<open>stderr\<close> after the \<open>switch\<close> has handled the events of \<open>pre\<close> in order.\<close>

definition absorb :: "int \<Rightarrow> (int \<times> xwii_event) list \<Rightarrow> devhandle \<times> log_msg list \<Rightarrow> devhandle \<times> log_msg list" where
  "absorb num pre st = fold (\<lambda>r st'. snd (switch_event num (snd r) st')) pre st"

text \<open>
  The latest decoded event among \<open>pre\<close> whose type is one of \<open>ts\<close>, if there is one.
\<close>

fun latest :: "xwii_event_type list \<Rightarrow> (int \<times> xwii_event) list \<Rightarrow> xwii_event option" where
  "latest ts [] = None"
| "latest ts (r # pre) =
     (case latest ts pre of
        Some e \<Rightarrow> Some e
      | None \<Rightarrow> if fst r = 0 \<and> ev_type (snd r) \<in> set ts then Some (snd r) else None)"

text \<open>
  The motion cache of a slot \<open>d'\<close> holds, for each channel, the latest sample that the
  events of \<open>pre\<close> carry for that channel, and what the slot \<open>d\<close> held where \<open>pre\<close>
  has no sample for it: the accelerometer and the motion-rate sensor take \<open>abs[0]\<close>, the
  nunchuk takes \<open>abs[1]\<close> for its accelerometer and \<open>abs[0]\<close> for its stick, the camera
  and the balance board take \<open>abs[0..3]\<close>, and the two sticks of the classic or pro
  controller take \<open>abs[0..1]\<close>.
\<close>

definition cache_after :: "devhandle \<Rightarrow> (int \<times> xwii_event) list \<Rightarrow> devhandle \<Rightarrow> bool" where
  "cache_after d pre d' =
     (accel d' = (case latest [XWII_EVENT_ACCEL] pre of
                    None \<Rightarrow> accel d | Some e \<Rightarrow> ev_abs e 0) \<and>
      motion d' = (case latest [XWII_EVENT_MOTION_PLUS] pre of
                     None \<Rightarrow> motion d | Some e \<Rightarrow> ev_abs e 0) \<and>
      nunchuk_accel d' = (case latest [XWII_EVENT_NUNCHUK_MOVE] pre of
                            None \<Rightarrow> nunchuk_accel d | Some e \<Rightarrow> ev_abs e 1) \<and>
      nunchuk_stick d' = (case latest [XWII_EVENT_NUNCHUK_MOVE] pre of
                            None \<Rightarrow> nunchuk_stick d | Some e \<Rightarrow> ev_abs e 0) \<and>
      ir d' = (case latest [XWII_EVENT_IR] pre of
                 None \<Rightarrow> ir d | Some e \<Rightarrow> (\<lambda>i. if i < 4 then ev_abs e i else ir d i)) \<and>
      board d' = (case latest [XWII_EVENT_BALANCE_BOARD] pre of
                    None \<Rightarrow> board d | Some e \<Rightarrow> (\<lambda>i. if i < 4 then ev_abs e i else board d i)) \<and>
      pro d' = (case latest [XWII_EVENT_CLASSIC_CONTROLLER_MOVE, XWII_EVENT_PRO_CONTROLLER_MOVE] pre of
                  None \<Rightarrow> pro d | Some e \<Rightarrow> (\<lambda>i. if i < 2 then ev_abs e i else pro d i)))"

text \<open>
  \<open>k\<close> calls of \<open>l_xwii_poll\<close> on the same handle, one after the other: the values each
  call returned and the world at the end, or \<open>None\<close> when one of the calls does not
  return.
\<close>

fun poll_n :: "nat \<Rightarrow> int \<Rightarrow> world \<Rightarrow> (lua_value list list \<times> world) option" where
  "poll_n 0 num s = Some ([], s)"
| "poll_n (Suc k) num s =
     (case l_xwii_poll num s of
        None \<Rightarrow> None
      | Some (r, s1) \<Rightarrow>
          (case poll_n k num s1 of
             None \<Rightarrow> None
           | Some (rs, s2) \<Rightarrow> Some (r # rs, s2)))"

section \<open>Example worlds\<close>

text \<open>
  The table as the program starts (static storage is zero; the object of a slot that
  was never opened is a placeholder the module does not touch), a device whose
  interface requests succeed, and a world with that one device connected.
\<close>

definition null_iface :: xwii_iface where
  "null_iface =
     \<lparr>ident = 0, available = 0, opened = 0, open_fn = (\<lambda>req cur. (0, cur)),
      watch_rc = 0, get_fd = 0, queue = [], battery = (0, 0), led_state = (\<lambda>_. False),
      led_get_rc = (\<lambda>_. 0), led_set_rc = (\<lambda>_. 0)\<rparr>"

definition zero_event :: xwii_event where
  "zero_event =
     \<lparr>ev_type = XWII_EVENT_KEY, key_code = 0, key_state = 0, ev_abs = (\<lambda>_. zero_abs)\<rparr>"

definition sample :: "32 word \<Rightarrow> 32 word \<Rightarrow> 32 word \<Rightarrow> xwii_event_abs" where
  "sample a b c = \<lparr>abs_x = a, abs_y = b, abs_z = c\<rparr>"

definition key_event :: "32 word \<Rightarrow> 32 word \<Rightarrow> xwii_event" where
  "key_event c st = zero_event\<lparr>key_code := c, key_state := st\<rparr>"

definition motion_event :: "xwii_event_type \<Rightarrow> xwii_event_abs \<Rightarrow> xwii_event_abs \<Rightarrow> xwii_event" where
  "motion_event t a0 a1 = zero_event\<lparr>ev_type := t, ev_abs := (\<lambda>i. if i = 0 then a0 else a1)\<rparr>"

definition remote :: "32 word \<Rightarrow> (int \<times> xwii_event) list \<Rightarrow> xwii_iface" where
  "remote avail q =
     null_iface\<lparr>available := avail, open_fn := (\<lambda>req cur. (0, cur OR (req AND avail))),
                get_fd := 3, queue := q\<rparr>"

definition zero_devhandle :: devhandle where
  "zero_devhandle =
     \<lparr>iface = null_iface, fds_num = 0, fds_fd = 0, fds_events = 0,
      accel = zero_abs, motion = zero_abs, nunchuk_accel = zero_abs, nunchuk_stick = zero_abs,
      ir = (\<lambda>_. zero_abs), pro = (\<lambda>_. zero_abs), board = (\<lambda>_. zero_abs)\<rparr>"

definition start_world :: "xwii_iface \<Rightarrow> (int \<times> int) list \<Rightarrow> world" where
  "start_world dev ws =
     \<lparr>devh = (\<lambda>_. zero_devhandle), stderr = [], monitor = Some [''wiimote1''],
      hw = (\<lambda>_. (0, dev)), next_id = 1, live = [], waits = ws\<rparr>"

text \<open>The world after \<open>xwii_open(1)\<close> on \<open>start_world\<close>.\<close>

definition opened_world :: "xwii_iface \<Rightarrow> (int \<times> int) list \<Rightarrow> world" where
  "opened_world dev ws = snd (l_xwii_open 1 (start_world dev ws))"

text \<open>A burst: one accelerometer sample, then a button pressed and released.\<close>

definition burst_queue :: "(int \<times> xwii_event) list" where
  "burst_queue =
     [(0, motion_event XWII_EVENT_ACCEL (sample 1 2 3) zero_abs),
      (0, key_event 4 1),
      (0, key_event 4 0)]"

definition burst_world :: world where
  "burst_world = opened_world (remote 7 burst_queue) [(1, 0), (1, 0), (1, 0)]"

text \<open>
  The same burst where nothing becomes readable after it (two waits succeed and no
  further wait returns), and where the first wait is interrupted.
\<close>

definition drained_world :: world where
  "drained_world = opened_world (remote 7 burst_queue) [(1, 0), (1, 0)]"

definition interrupted_world :: world where
  "interrupted_world = opened_world (remote 7 burst_queue) [(- 1, 4), (1, 0), (1, 0)]"

text \<open>A sample, then the removal of the device, then a key event that is never read.\<close>

definition gone_queue :: "(int \<times> xwii_event) list" where
  "gone_queue =
     [(0, motion_event XWII_EVENT_ACCEL (sample 1 2 3) zero_abs),
      (0, zero_event\<lparr>ev_type := XWII_EVENT_GONE\<rparr>),
      (0, key_event 4 1)]"

definition gone_world :: world where
  "gone_world = opened_world (remote 7 gone_queue) [(1, 0), (1, 0)]"

text \<open>
  A plain remote (core, accelerometer and camera: mask 7), opened, with nothing
  pending: no classic or pro controller and no balance board.
\<close>

definition plain_world :: world where
  "plain_world = opened_world (remote 7 []) []"

text \<open>
  A session that reads one accelerometer sample and one camera sample, is closed, and
  the same index opened again.
\<close>

definition leak_queue :: "(int \<times> xwii_event) list" where
  "leak_queue =
     [(0, motion_event XWII_EVENT_ACCEL (sample 1 2 3) zero_abs),
      (0, motion_event XWII_EVENT_IR (sample 5 6 0) (sample 5 6 0))]"

definition leak_world :: world where
  "leak_world =
     snd (l_xwii_open 1 (snd (l_xwii_close 1 (snd (the (l_xwii_poll 1
       (opened_world (remote 7 leak_queue) [(1, 0)])))))))"

text \<open>Worlds where \<open>xwii_open\<close> fails at each of its steps (\<open>-19\<close> is \<open>-ENODEV\<close>).\<close>

definition new_fails_world :: world where
  "new_fails_world = (start_world (remote 7 []) [])\<lparr>hw := (\<lambda>_. (- 19, remote 7 []))\<rparr>"

definition open_fails_world :: world where
  "open_fails_world =
     start_world ((remote 7 [])\<lparr>open_fn := (\<lambda>req cur. (- 19, cur))\<rparr>) []"

text \<open>An interrupted wait (\<open>errno = EINTR\<close>) with a key event pending, then a wait that succeeds.\<close>

definition eintr_world :: world where
  "eintr_world = opened_world (remote 7 [(0, key_event 4 1)]) [(- 1, 4), (1, 0)]"

text \<open>
  A remote with a classic controller (mask \<open>0x401\<close>) and no balance board, after one
  poll that read a sample of the controller's two sticks.
\<close>

definition classic_world :: world where
  "classic_world =
     snd (the (l_xwii_poll 1
       (opened_world
          (remote 0x401
             [(0, motion_event XWII_EVENT_CLASSIC_CONTROLLER_MOVE (sample 7 8 0) (sample 9 10 0))])
          [(1, 0)])))"


text \<open>A world where the enumeration cannot be started.\<close>

definition no_monitor_world :: world where
  "no_monitor_world = (start_world (remote 7 []) [])\<lparr>monitor := None\<rparr>"

text \<open>A remote whose battery cannot be read (\<open>-5\<close> is \<open>-EIO\<close>), opened.\<close>

definition no_battery_world :: world where
  "no_battery_world = opened_world ((remote 7 [])\<lparr>battery := (- 5, 0)\<rparr>) []"

section \<open>The poll loop\<close>

lemma switch_event_passes:
  "passes r \<Longrightarrow> fst (switch_event num (snd r) st) = None"
  by (cases st; cases "ev_type (snd r)")
     (simp_all add: passes_def is_key_def switch_event_def split: prod.splits)

lemma switch_event_key:
  "is_key (ev_type k) \<Longrightarrow> switch_event num k (d, lg) = (Some [key_table k], d, lg)"
  by (cases "ev_type k") (simp_all add: is_key_def switch_event_def)

lemma switch_event_gone:
  "ev_type g = XWII_EVENT_GONE \<Longrightarrow>
   switch_event num g (d, lg) =
     (Some [LInteger 16], d\<lparr>fds_fd := - 1, fds_events := 0, fds_num := 0\<rparr>, lg @ [Poll_removed num])"
  by (simp add: switch_event_def)

text \<open>What the branches of the motion events write into the slot.\<close>

lemma switch_event_motion:
  "ev_type e = XWII_EVENT_ACCEL \<Longrightarrow>
     switch_event num e (d, lg) = (None, d\<lparr>accel := ev_abs e 0\<rparr>, lg)"
  "ev_type e = XWII_EVENT_MOTION_PLUS \<Longrightarrow>
     switch_event num e (d, lg) = (None, d\<lparr>motion := ev_abs e 0\<rparr>, lg)"
  "ev_type e = XWII_EVENT_NUNCHUK_MOVE \<Longrightarrow>
     switch_event num e (d, lg) =
       (None, d\<lparr>nunchuk_accel := ev_abs e 1, nunchuk_stick := ev_abs e 0\<rparr>, lg)"
  "ev_type e = XWII_EVENT_IR \<Longrightarrow>
     switch_event num e (d, lg) =
       (None, d\<lparr>ir := (ir d)(0 := ev_abs e 0, 1 := ev_abs e 1, 2 := ev_abs e 2, 3 := ev_abs e 3)\<rparr>, lg)"
  "ev_type e = XWII_EVENT_BALANCE_BOARD \<Longrightarrow>
     switch_event num e (d, lg) =
       (None, d\<lparr>board := (board d)(0 := ev_abs e 0, 1 := ev_abs e 1, 2 := ev_abs e 2, 3 := ev_abs e 3)\<rparr>, lg)"
  "ev_type e = XWII_EVENT_CLASSIC_CONTROLLER_MOVE \<or> ev_type e = XWII_EVENT_PRO_CONTROLLER_MOVE \<Longrightarrow>
     switch_event num e (d, lg) =
       (None, d\<lparr>pro := (pro d)(0 := ev_abs e 0, 1 := ev_abs e 1)\<rparr>, lg)"
  by (auto simp: switch_event_def copy_abs_def)

lemma key_table_pair:
  "key_table e = LTable [(1, LInteger (uint (key_code e))), (2, LInteger (uint (key_state e)))]"
  by (simp add: key_table_def lua_settable_def)

lemma switch_event_passes_fds:
  "passes r \<Longrightarrow> switch_event num (snd r) (d, lg) = (x, d', lg') \<Longrightarrow>
     fds_num d' = fds_num d \<and> fds_fd d' = fds_fd d \<and> queue (iface d') = queue (iface d)"
  by (cases "ev_type (snd r)")
     (auto simp: passes_def is_key_def switch_event_def xwii_iface_open_def split: prod.splits)

lemma drain_passes:
  "\<forall>r\<in>set pre. passes r \<Longrightarrow> drain num (pre @ rest) st = drain num rest (absorb num pre st)"
proof (induction pre arbitrary: st)
  case Nil
  then show ?case by (simp add: absorb_def)
next
  case (Cons r pre)
  obtain ret ev where r: "r = (ret, ev)" by (cases r)
  obtain d lg where st: "st = (d, lg)" by (cases st)
  from Cons.prems have p: "passes r" and rest: "\<forall>r\<in>set pre. passes r" by simp_all
  from p r have ret: "ret = 0" by (simp add: passes_def)
  obtain x d' lg' where sw: "switch_event num ev (d, lg) = (x, d', lg')"
    by (cases "switch_event num ev (d, lg)")
  with switch_event_passes[OF p, of num "(d, lg)"] r have x: "x = None" by simp
  have "drain num ((r # pre) @ rest) st = drain num (pre @ rest) (d', lg')"
    by (simp add: r st ret sw x)
  also have "\<dots> = drain num rest (absorb num pre (d', lg'))"
    using Cons.IH[OF rest] .
  also have "absorb num pre (d', lg') = absorb num (r # pre) st"
    by (simp add: absorb_def r st sw)
  finally show ?case .
qed

lemma absorb_fds:
  "\<forall>r\<in>set pre. passes r \<Longrightarrow>
     fds_num (fst (absorb num pre (d, lg))) = fds_num d \<and>
     fds_fd (fst (absorb num pre (d, lg))) = fds_fd d \<and>
     queue (iface (fst (absorb num pre (d, lg)))) = queue (iface d)"
proof (induction pre arbitrary: d lg)
  case Nil
  then show ?case by (simp add: absorb_def)
next
  case (Cons r pre)
  obtain x d' lg' where sw: "switch_event num (snd r) (d, lg) = (x, d', lg')"
    by (cases "switch_event num (snd r) (d, lg)")
  from Cons.prems have p: "passes r" and rest: "\<forall>r\<in>set pre. passes r" by simp_all
  have "absorb num (r # pre) (d, lg) = absorb num pre (d', lg')"
    by (simp add: absorb_def sw)
  with Cons.IH[OF rest, of d' lg'] switch_event_passes_fds[OF p sw] show ?case by simp
qed

lemma poll_ready:
  assumes "1 \<le> num" "num \<le> NDEV" "fds_num (devh s (slot num)) \<noteq> 0"
    and "waits s = (ret, errno) # ws" "0 \<le> ret"
    and "drain num (queue (iface (devh s (slot num)))) (devh s (slot num), stderr s) = (r, q', d', lg')"
  shows "l_xwii_poll num s =
           Some (r, set_slot num (d'\<lparr>iface := (iface d')\<lparr>queue := q'\<rparr>\<rparr>) (s\<lparr>waits := ws, stderr := lg'\<rparr>))"
  using assms by (simp add: l_xwii_poll_def set_slot_def)

lemma poll_key:
  assumes op: "1 \<le> num" "num \<le> NDEV" "fds_num (devh s (slot num)) \<noteq> 0"
    and w: "waits s = (ret, errno) # ws" "0 \<le> ret"
    and q: "queue (iface (devh s (slot num))) = pre @ (0, k) # rest"
    and pre: "\<forall>r\<in>set pre. passes r" and k: "is_key (ev_type k)"
    and ab: "absorb num pre (devh s (slot num), stderr s) = (d', lg')"
  shows "l_xwii_poll num s =
           Some ([key_table k],
                 set_slot num (d'\<lparr>iface := (iface d')\<lparr>queue := rest\<rparr>\<rparr>) (s\<lparr>waits := ws, stderr := lg'\<rparr>))"
proof -
  have "drain num (queue (iface (devh s (slot num)))) (devh s (slot num), stderr s)
          = drain num ((0, k) # rest) (d', lg')"
    by (simp only: q drain_passes[OF pre] ab)
  also have "\<dots> = ([key_table k], rest, d', lg')"
    by (simp add: switch_event_key[OF k])
  finally show ?thesis by (rule poll_ready[OF op w])
qed

lemma poll_no_key:
  assumes op: "1 \<le> num" "num \<le> NDEV" "fds_num (devh s (slot num)) \<noteq> 0"
    and w: "waits s = (ret, errno) # ws" "0 \<le> ret"
    and pre: "\<forall>r\<in>set (queue (iface (devh s (slot num)))). passes r"
    and ab: "absorb num (queue (iface (devh s (slot num)))) (devh s (slot num), stderr s) = (d', lg')"
  shows "l_xwii_poll num s =
           Some ([LNil],
                 set_slot num (d'\<lparr>iface := (iface d')\<lparr>queue := []\<rparr>\<rparr>) (s\<lparr>waits := ws, stderr := lg'\<rparr>))"
proof -
  have "drain num (queue (iface (devh s (slot num))) @ []) (devh s (slot num), stderr s)
          = drain num [] (d', lg')"
    by (simp only: drain_passes[OF pre] ab)
  then have "drain num (queue (iface (devh s (slot num)))) (devh s (slot num), stderr s)
          = ([LNil], [], d', lg')"
    by simp
  then show ?thesis by (rule poll_ready[OF op w])
qed

lemma keys_of_Cons:
  assumes "keys_of q = k # ks"
  shows "\<exists>pre rest. q = pre @ (0, k) # rest \<and> (\<forall>r\<in>set pre. \<not> (fst r = 0 \<and> is_key (ev_type (snd r))))
            \<and> is_key (ev_type k) \<and> keys_of rest = ks"
proof -
  let ?P = "\<lambda>r::int \<times> xwii_event. fst r = 0 \<and> is_key (ev_type (snd r))"
  from assms obtain r rs where f: "filter ?P q = r # rs" and r: "snd r = k" and rs: "map snd rs = ks"
    by (auto simp: keys_of_def map_eq_Cons_conv)
  from f obtain us vs where "q = us @ r # vs" "\<forall>u\<in>set us. \<not> ?P u" "?P r" "rs = filter ?P vs"
    by (auto simp: filter_eq_Cons_iff)
  moreover from this r have "r = (0, k)" by (cases r) simp
  ultimately show ?thesis using r rs by (auto simp: keys_of_def)
qed

lemma burst:
  assumes "1 \<le> num" "num \<le> NDEV" "fds_num (devh s (slot num)) \<noteq> 0"
    and "queue (iface (devh s (slot num))) = q"
    and "\<forall>r\<in>set q. fst r = 0 \<and> ev_type (snd r) \<noteq> XWII_EVENT_GONE"
    and "length (keys_of q) = n"
    and "n < length (waits s)"
    and "\<forall>w\<in>set (take n (waits s)). 0 \<le> fst w"
  shows "map_option fst (poll_n (Suc n) num s) = Some (map (\<lambda>k. [key_table k]) (keys_of q) @ [[LNil]])"
  using assms
proof (induction n arbitrary: s q)
  case 0
  then obtain ret errno ws where w: "waits s = (ret, errno) # ws"
    by (cases "waits s") auto
  from 0 have nokeys: "keys_of q = []" by simp
  with 0 have pre: "\<forall>r\<in>set (queue (iface (devh s (slot num)))). passes r"
    by (auto simp: keys_of_def passes_def filter_empty_conv)
  obtain d' lg' where ab: "absorb num (queue (iface (devh s (slot num)))) (devh s (slot num), stderr s) = (d', lg')"
    by (cases "absorb num (queue (iface (devh s (slot num)))) (devh s (slot num), stderr s)")
  show ?case
  proof (cases "ret < 0")
    case True
    with "0.prems"(1-3) w have "map_option fst (l_xwii_poll num s) = Some [LNil]"
      by (simp add: l_xwii_poll_def Let_def)
    then show ?thesis by (auto simp: nokeys split: option.splits)
  next
    case False
    then have ret: "0 \<le> ret" by simp
    show ?thesis
      by (simp add: poll_no_key[OF "0.prems"(1-3) w ret pre ab] nokeys)
  qed
next
  case (Suc n)
  then obtain ret errno ws where w: "waits s = (ret, errno) # ws" and ret: "0 \<le> ret"
    by (cases "waits s") auto
  from Suc.prems obtain k ks where ks: "keys_of q = k # ks" by (cases "keys_of q") auto
  from keys_of_Cons[OF ks] obtain pre rest where q: "q = pre @ (0, k) # rest"
    and npre: "\<forall>r\<in>set pre. \<not> (fst r = 0 \<and> is_key (ev_type (snd r)))"
    and k: "is_key (ev_type k)" and rest: "keys_of rest = ks" by blast
  from Suc.prems(5) q npre have pre: "\<forall>r\<in>set pre. passes r"
    by (auto simp: passes_def)
  obtain d' lg' where ab: "absorb num pre (devh s (slot num), stderr s) = (d', lg')"
    by (cases "absorb num pre (devh s (slot num), stderr s)")
  let ?s1 = "set_slot num (d'\<lparr>iface := (iface d')\<lparr>queue := rest\<rparr>\<rparr>) (s\<lparr>waits := ws, stderr := lg'\<rparr>)"
  have p1: "l_xwii_poll num s = Some ([key_table k], ?s1)"
    using poll_key[OF Suc.prems(1-3) w ret _ pre k ab] Suc.prems(4) q by simp
  from absorb_fds[OF pre, of num "devh s (slot num)" "stderr s"] ab
  have fds: "fds_num d' = fds_num (devh s (slot num))" by simp
  have o1: "fds_num (devh ?s1 (slot num)) \<noteq> 0"
    using Suc.prems(3) fds by (simp add: set_slot_def)
  have q1: "queue (iface (devh ?s1 (slot num))) = rest" by (simp add: set_slot_def)
  have r1: "\<forall>r\<in>set rest. fst r = 0 \<and> ev_type (snd r) \<noteq> XWII_EVENT_GONE"
    using Suc.prems(5) q by simp
  have l1: "length (keys_of rest) = n" using Suc.prems(6) ks rest by simp
  have w1: "n < length (waits ?s1)" using Suc.prems(7) w by (simp add: set_slot_def)
  have w2: "\<forall>w\<in>set (take n (waits ?s1)). 0 \<le> fst w"
    using Suc.prems(8) w by (simp add: set_slot_def)
  note IH = Suc.IH[OF Suc.prems(1,2) o1 q1 r1 l1 w1 w2]
  have "poll_n (Suc (Suc n)) num s =
          (case poll_n (Suc n) num ?s1 of None \<Rightarrow> None | Some (rs, s2) \<Rightarrow> Some ([key_table k] # rs, s2))"
    by (simp only: poll_n.simps(2)[of "Suc n"] p1 option.case prod.case)
  then show ?case using IH by (auto simp: ks rest split: option.splits)
qed

lemma switch_event_result:
  "switch_event num ev (d, lg) = (Some r, d', lg') \<Longrightarrow>
     r = [LInteger 16] \<or> (is_key (ev_type ev) \<and> r = [key_table ev])"
  by (cases "ev_type ev") (auto simp: switch_event_def is_key_def split: prod.splits)

lemma drain_result:
  "fst (drain num q st) = [LNil] \<or> fst (drain num q st) = [LInteger 16] \<or>
   (\<exists>k. (0, k) \<in> set q \<and> is_key (ev_type k) \<and> fst (drain num q st) = [key_table k])"
proof (induction q arbitrary: st)
  case Nil
  show ?case by (cases st) simp
next
  case (Cons r q)
  obtain ret ev where r: "r = (ret, ev)" by (cases r)
  obtain d lg where st: "st = (d, lg)" by (cases st)
  obtain x d' lg' where sw: "switch_event num ev (d, lg) = (x, d', lg')"
    by (cases "switch_event num ev (d, lg)")
  show ?case
  proof (cases "ret = 0")
    case False
    then show ?thesis by (simp add: r st)
  next
    case True
    show ?thesis
    proof (cases x)
      case None
      with True sw have "drain num (r # q) st = drain num q (d', lg')" by (simp add: r st)
      with Cons.IH[of "(d', lg')"] show ?thesis by auto
    next
      case (Some v)
      with True sw have "fst (drain num (r # q) st) = v" by (simp add: r st)
      with switch_event_result[of num ev d lg v d' lg'] sw Some True r show ?thesis by auto
    qed
  qed
qed

text \<open>
  The wait has no timeout: a call on an open handle whose wait does not return does not
  return either, and a call on a closed handle returns nil without waiting.
\<close>

lemma poll_blocks:
  assumes "1 \<le> num" "num \<le> NDEV" "fds_num (devh s (slot num)) \<noteq> 0" "waits s = []"
  shows "l_xwii_poll num s = None"
  using assms by (simp add: l_xwii_poll_def)

lemma poll_closed:
  assumes "\<not> (1 \<le> num \<and> num \<le> NDEV \<and> fds_num (devh s (slot num)) \<noteq> 0)"
  shows "l_xwii_poll num s = Some ([LNil], s)"
  unfolding l_xwii_poll_def using assms by (simp only: if_False)

text \<open>
  The cache after the loop has consumed the events of \<open>pre\<close>: every channel holds
  its latest sample.
\<close>

lemma upd4:
  "f(0 := g 0, 1 := g 1, 2 := g 2, 3 := g (3::nat)) = (\<lambda>i. if i < 4 then g i else f i)"
proof (rule ext)
  fix i :: nat
  have "i < 4 \<longleftrightarrow> i = 0 \<or> i = 1 \<or> i = 2 \<or> i = 3" by arith
  then show "(f(0 := g 0, 1 := g 1, 2 := g 2, 3 := g 3)) i = (if i < 4 then g i else f i)"
    by auto
qed

lemma upd2:
  "f(0 := g 0, 1 := g (1::nat)) = (\<lambda>i. if i < 2 then g i else f i)"
proof (rule ext)
  fix i :: nat
  have "i < 2 \<longleftrightarrow> i = 0 \<or> i = 1" by arith
  then show "(f(0 := g 0, 1 := g 1)) i = (if i < 2 then g i else f i)"
    by auto
qed

lemma switch_event_cache:
  assumes p: "passes r" and sw: "switch_event num (snd r) (d, lg) = (x, d1, lg1)"
  shows "accel d1 = (if fst r = 0 \<and> ev_type (snd r) \<in> set [XWII_EVENT_ACCEL]
                     then ev_abs (snd r) 0 else accel d)"
    and "motion d1 = (if fst r = 0 \<and> ev_type (snd r) \<in> set [XWII_EVENT_MOTION_PLUS]
                      then ev_abs (snd r) 0 else motion d)"
    and "nunchuk_accel d1 = (if fst r = 0 \<and> ev_type (snd r) \<in> set [XWII_EVENT_NUNCHUK_MOVE]
                             then ev_abs (snd r) 1 else nunchuk_accel d)"
    and "nunchuk_stick d1 = (if fst r = 0 \<and> ev_type (snd r) \<in> set [XWII_EVENT_NUNCHUK_MOVE]
                             then ev_abs (snd r) 0 else nunchuk_stick d)"
    and "ir d1 = (if fst r = 0 \<and> ev_type (snd r) \<in> set [XWII_EVENT_IR]
                  then (\<lambda>i. if i < 4 then ev_abs (snd r) i else ir d i) else ir d)"
    and "board d1 = (if fst r = 0 \<and> ev_type (snd r) \<in> set [XWII_EVENT_BALANCE_BOARD]
                     then (\<lambda>i. if i < 4 then ev_abs (snd r) i else board d i) else board d)"
    and "pro d1 = (if fst r = 0 \<and> ev_type (snd r) \<in> set [XWII_EVENT_CLASSIC_CONTROLLER_MOVE, XWII_EVENT_PRO_CONTROLLER_MOVE]
                   then (\<lambda>i. if i < 2 then ev_abs (snd r) i else pro d i) else pro d)"
  using p sw
  by (cases "ev_type (snd r)";
      auto simp: passes_def is_key_def switch_event_def copy_abs_def xwii_iface_open_def
           upd4[symmetric] upd2[symmetric] split: prod.splits)+

lemma absorb_field:
  assumes step: "\<And>r d lg x d1 lg1. passes r \<Longrightarrow> switch_event num (snd r) (d, lg) = (x, d1, lg1) \<Longrightarrow>
                   fld d1 = (if fst r = 0 \<and> ev_type (snd r) \<in> set ts then upd (snd r) (fld d) else fld d)"
    and over: "\<And>e e' v. upd e (upd e' v) = upd e v"
    and pre: "\<forall>r\<in>set pre. passes r"
  shows "fld (fst (absorb num pre (d, lg))) =
           (case latest ts pre of None \<Rightarrow> fld d | Some e \<Rightarrow> upd e (fld d))"
  using pre
proof (induction pre arbitrary: d lg)
  case Nil
  then show ?case by (simp add: absorb_def)
next
  case (Cons r pre)
  obtain x d1 lg1 where sw: "switch_event num (snd r) (d, lg) = (x, d1, lg1)"
    by (cases "switch_event num (snd r) (d, lg)")
  from Cons.prems have p: "passes r" and rest: "\<forall>r\<in>set pre. passes r" by simp_all
  have a: "absorb num (r # pre) (d, lg) = absorb num pre (d1, lg1)"
    by (simp add: absorb_def sw)
  note s = step[OF p sw]
  note IH = Cons.IH[OF rest, of d1 lg1]
  show ?case
  proof (cases "latest ts pre")
    case None
    with IH s show ?thesis by (simp add: a)
  next
    case (Some e)
    with IH s show ?thesis by (simp add: a over)
  qed
qed

lemma absorb_cache:
  assumes pre: "\<forall>r\<in>set pre. passes r"
  shows "cache_after d pre (fst (absorb num pre (d, lg)))"
  unfolding cache_after_def
proof (intro conjI)
  show "accel (fst (absorb num pre (d, lg))) =
          (case latest [XWII_EVENT_ACCEL] pre of None \<Rightarrow> accel d | Some e \<Rightarrow> ev_abs e 0)"
    by (rule absorb_field[where upd = "\<lambda>e v. ev_abs e 0", OF switch_event_cache(1) _ pre]) simp_all
  show "motion (fst (absorb num pre (d, lg))) =
          (case latest [XWII_EVENT_MOTION_PLUS] pre of None \<Rightarrow> motion d | Some e \<Rightarrow> ev_abs e 0)"
    by (rule absorb_field[where upd = "\<lambda>e v. ev_abs e 0", OF switch_event_cache(2) _ pre]) simp_all
  show "nunchuk_accel (fst (absorb num pre (d, lg))) =
          (case latest [XWII_EVENT_NUNCHUK_MOVE] pre of None \<Rightarrow> nunchuk_accel d | Some e \<Rightarrow> ev_abs e 1)"
    by (rule absorb_field[where upd = "\<lambda>e v. ev_abs e 1", OF switch_event_cache(3) _ pre]) simp_all
  show "nunchuk_stick (fst (absorb num pre (d, lg))) =
          (case latest [XWII_EVENT_NUNCHUK_MOVE] pre of None \<Rightarrow> nunchuk_stick d | Some e \<Rightarrow> ev_abs e 0)"
    by (rule absorb_field[where upd = "\<lambda>e v. ev_abs e 0", OF switch_event_cache(4) _ pre]) simp_all
  show "ir (fst (absorb num pre (d, lg))) =
          (case latest [XWII_EVENT_IR] pre of
             None \<Rightarrow> ir d | Some e \<Rightarrow> (\<lambda>i. if i < 4 then ev_abs e i else ir d i))"
    by (rule absorb_field[where upd = "\<lambda>e v i. if i < 4 then ev_abs e i else v i",
          OF switch_event_cache(5) _ pre]) (simp_all add: fun_eq_iff)
  show "board (fst (absorb num pre (d, lg))) =
          (case latest [XWII_EVENT_BALANCE_BOARD] pre of
             None \<Rightarrow> board d | Some e \<Rightarrow> (\<lambda>i. if i < 4 then ev_abs e i else board d i))"
    by (rule absorb_field[where upd = "\<lambda>e v i. if i < 4 then ev_abs e i else v i",
          OF switch_event_cache(6) _ pre]) (simp_all add: fun_eq_iff)
  show "pro (fst (absorb num pre (d, lg))) =
          (case latest [XWII_EVENT_CLASSIC_CONTROLLER_MOVE, XWII_EVENT_PRO_CONTROLLER_MOVE] pre of
             None \<Rightarrow> pro d | Some e \<Rightarrow> (\<lambda>i. if i < 2 then ev_abs e i else pro d i))"
    by (rule absorb_field[where upd = "\<lambda>e v i. if i < 2 then ev_abs e i else v i",
          OF switch_event_cache(7) _ pre]) (simp_all add: fun_eq_iff)
qed

text \<open>
  C1, as amended. On an open handle, a call of \<open>l_xwii_poll\<close> that returns gives one
  value: nil, the removal signal, or the table \<open>{code, state}\<close> of one key event that
  was pending. When the wait succeeds and the pending results start with events that the
  loop consumes, followed by a key event, the call returns the code and state of that
  key event, leaves pending what follows it, keeps the slot open, and the motion cache
  holds the latest sample of every channel among the consumed events. Hence, when all
  pending results are decoded events other than the removal, among them \<open>N\<close> key
  events, the next \<open>N\<close> waits succeed and one more wait returns, \<open>N+1\<close> calls
  return: the first \<open>N\<close> return the \<open>N\<close> key events in order, one per call, and the
  last returns nil.
\<close>

theorem poll_one_key_per_call:
  assumes op: "1 \<le> num" "num \<le> NDEV" "fds_num (devh s (slot num)) \<noteq> 0"
  shows "(\<forall>r s'. l_xwii_poll num s = Some (r, s') \<longrightarrow>
            r = [LNil] \<or> r = [LInteger (event_code XWII_EVENT_GONE)] \<or>
            (\<exists>k. (0, k) \<in> set (pending num s) \<and> is_key (ev_type k) \<and>
                 r = [LTable [(1, LInteger (uint (key_code k))), (2, LInteger (uint (key_state k)))]]))
       \<and> (\<forall>ret errno ws pre k rest.
            waits s = (ret, errno) # ws \<and> 0 \<le> ret \<and> pending num s = pre @ (0, k) # rest \<and>
            (\<forall>r\<in>set pre. passes r) \<and> is_key (ev_type k) \<longrightarrow>
            (\<exists>s'. l_xwii_poll num s =
                    Some ([LTable [(1, LInteger (uint (key_code k))),
                                   (2, LInteger (uint (key_state k)))]], s') \<and>
                  pending num s' = rest \<and>
                  waits s' = ws \<and>
                  fds_num (devh s' (slot num)) = fds_num (devh s (slot num)) \<and>
                  cache_after (devh s (slot num)) pre (devh s' (slot num)) \<and>
                  (\<forall>i. i \<noteq> slot num \<longrightarrow> devh s' i = devh s i)))
       \<and> ((\<forall>r\<in>set (pending num s). fst r = 0 \<and> ev_type (snd r) \<noteq> XWII_EVENT_GONE) \<and>
           length (keys_of (pending num s)) < length (waits s) \<and>
           (\<forall>w\<in>set (take (length (keys_of (pending num s))) (waits s)). 0 \<le> fst w) \<longrightarrow>
           map_option fst (poll_n (Suc (length (keys_of (pending num s)))) num s) =
             Some (map (\<lambda>k. [LTable [(1, LInteger (uint (key_code k))),
                                       (2, LInteger (uint (key_state k)))]])
                     (keys_of (pending num s)) @ [[LNil]]))"
proof (intro conjI allI impI)
  fix r s'
  assume ret: "l_xwii_poll num s = Some (r, s')"
  show "r = [LNil] \<or> r = [LInteger (event_code XWII_EVENT_GONE)] \<or>
        (\<exists>k. (0, k) \<in> set (pending num s) \<and> is_key (ev_type k) \<and>
             r = [LTable [(1, LInteger (uint (key_code k))), (2, LInteger (uint (key_state k)))]])"
  proof (cases "waits s")
    case Nil
    with ret op show ?thesis by (simp add: l_xwii_poll_def)
  next
    case (Cons w ws)
    obtain a b where w: "w = (a, b)" by (cases w)
    show ?thesis
    proof (cases "a < 0")
      case True
      with ret op Cons w show ?thesis by (auto simp: l_xwii_poll_def Let_def)
    next
      case False
      with ret op Cons w
      have "r = fst (drain num (pending num s) (devh s (slot num), stderr s))"
        by (auto simp: l_xwii_poll_def pending_def Let_def split: prod.splits)
      with drain_result[of num "pending num s" "(devh s (slot num), stderr s)"]
      show ?thesis by (simp add: key_table_pair)
    qed
  qed
next
  fix ret errno ws pre k rest
  assume h: "waits s = (ret, errno) # ws \<and> 0 \<le> ret \<and> pending num s = pre @ (0, k) # rest \<and>
            (\<forall>r\<in>set pre. passes r) \<and> is_key (ev_type k)"
  then have pre: "\<forall>r\<in>set pre. passes r" by simp
  obtain d' lg' where ab: "absorb num pre (devh s (slot num), stderr s) = (d', lg')"
    by (cases "absorb num pre (devh s (slot num), stderr s)")
  let ?s' = "set_slot num (d'\<lparr>iface := (iface d')\<lparr>queue := rest\<rparr>\<rparr>) (s\<lparr>waits := ws, stderr := lg'\<rparr>)"
  have p: "l_xwii_poll num s = Some ([key_table k], ?s')"
    by (rule poll_key[OF op, of ret errno ws pre k rest]) (use h ab in \<open>simp_all add: pending_def\<close>)
  from absorb_fds[OF pre, of num "devh s (slot num)" "stderr s"] ab
  have fds: "fds_num d' = fds_num (devh s (slot num))" by simp
  from absorb_cache[OF pre, of "devh s (slot num)" num "stderr s"] ab
  have ca: "cache_after (devh s (slot num)) pre d'" by simp
  show "\<exists>s'. l_xwii_poll num s =
                Some ([LTable [(1, LInteger (uint (key_code k))),
                               (2, LInteger (uint (key_state k)))]], s') \<and>
              pending num s' = rest \<and>
              waits s' = ws \<and>
              fds_num (devh s' (slot num)) = fds_num (devh s (slot num)) \<and>
              cache_after (devh s (slot num)) pre (devh s' (slot num)) \<and>
              (\<forall>i. i \<noteq> slot num \<longrightarrow> devh s' i = devh s i)"
  proof (intro exI[of _ ?s'] conjI allI impI)
    show "l_xwii_poll num s =
            Some ([LTable [(1, LInteger (uint (key_code k))), (2, LInteger (uint (key_state k)))]], ?s')"
      using p by (simp add: key_table_pair)
    show "cache_after (devh s (slot num)) pre (devh ?s' (slot num))"
      using ca by (simp add: cache_after_def set_slot_def)
    show "fds_num (devh ?s' (slot num)) = fds_num (devh s (slot num))"
      using fds by (simp add: set_slot_def)
  qed (simp_all add: pending_def set_slot_def)
next
  assume h: "(\<forall>r\<in>set (pending num s). fst r = 0 \<and> ev_type (snd r) \<noteq> XWII_EVENT_GONE) \<and>
           length (keys_of (pending num s)) < length (waits s) \<and>
           (\<forall>w\<in>set (take (length (keys_of (pending num s))) (waits s)). 0 \<le> fst w)"
  have "map_option fst (poll_n (Suc (length (keys_of (pending num s)))) num s) =
             Some (map (\<lambda>k. [key_table k]) (keys_of (pending num s)) @ [[LNil]])"
    by (rule burst[OF op, of "pending num s"]) (use h in \<open>simp_all add: pending_def\<close>)
  then show "map_option fst (poll_n (Suc (length (keys_of (pending num s)))) num s) =
             Some (map (\<lambda>k. [LTable [(1, LInteger (uint (key_code k))),
                                       (2, LInteger (uint (key_state k)))]])
                     (keys_of (pending num s)) @ [[LNil]])"
    by (simp add: key_table_pair)
qed

lemma bw_open: "fds_num (devh burst_world (slot 1)) \<noteq> 0"
  by code_simp

lemma bw_q: "pending 1 burst_world = burst_queue"
  by (simp add: pending_def burst_world_def opened_world_def l_xwii_open_def start_world_def remote_def
      null_iface_def NDEV_def get_dev_def slot_def zero_devhandle_def xwii_iface_new_def
      xwii_iface_open_def set_slot_def Let_def)

lemma bw_waits: "waits burst_world = [(1, 0), (1, 0), (1, 0)]"
  by (simp add: burst_world_def opened_world_def l_xwii_open_def start_world_def remote_def
      null_iface_def NDEV_def get_dev_def slot_def zero_devhandle_def xwii_iface_new_def
      xwii_iface_open_def set_slot_def Let_def)

theorem poll_one_key_per_call_witness:
  "fds_num (devh burst_world (slot 1)) \<noteq> 0 \<and>
   (\<exists>s'. l_xwii_poll 1 burst_world = Some ([LTable [(1, LInteger 4), (2, LInteger 1)]], s') \<and>
         pending 1 s' = [(0, key_event 4 0)] \<and>
         accel (devh s' (slot 1)) = sample 1 2 3) \<and>
   map_option fst (poll_n 3 1 burst_world) =
     Some [[LTable [(1, LInteger 4), (2, LInteger 1)]], [LTable [(1, LInteger 4), (2, LInteger 0)]], [LNil]]"
proof -
  have o: "(1::int) \<le> 1" "1 \<le> NDEV" "fds_num (devh burst_world (slot 1)) \<noteq> 0"
    using bw_open by (simp_all add: NDEV_def)
  note T = poll_one_key_per_call[OF o]
  have k1: "is_key (ev_type (key_event 4 1))"
    by (simp add: key_event_def zero_event_def is_key_def)
  have p1: "\<forall>r\<in>set [(0, motion_event XWII_EVENT_ACCEL (sample 1 2 3) zero_abs)]. passes r"
    by (simp add: passes_def motion_event_def zero_event_def is_key_def)
  have q1: "pending 1 burst_world =
      [(0, motion_event XWII_EVENT_ACCEL (sample 1 2 3) zero_abs)] @ (0, key_event 4 1) # [(0, key_event 4 0)]"
    by (simp add: bw_q burst_queue_def)
  note A0 = T[THEN conjunct2, THEN conjunct1, rule_format,
      where ret = 1 and errno = 0 and ws = "[(1, 0), (1, 0)]"
        and pre = "[(0, motion_event XWII_EVENT_ACCEL (sample 1 2 3) zero_abs)]"
        and k = "key_event 4 1" and rest = "[(0, key_event 4 0)]"]
  from A0 bw_waits q1 p1 k1 obtain s' where
      r: "l_xwii_poll 1 burst_world =
            Some ([LTable [(1, LInteger (uint (key_code (key_event 4 1)))),
                           (2, LInteger (uint (key_state (key_event 4 1))))]], s')"
    and q: "pending 1 s' = [(0, key_event 4 0)]"
    and c: "cache_after (devh burst_world (slot 1))
              [(0, motion_event XWII_EVENT_ACCEL (sample 1 2 3) zero_abs)] (devh s' (slot 1))"
    by auto
  from c have acc: "accel (devh s' (slot 1)) = sample 1 2 3"
    by (simp add: cache_after_def motion_event_def zero_event_def)
  have A: "\<exists>s'. l_xwii_poll 1 burst_world = Some ([LTable [(1, LInteger 4), (2, LInteger 1)]], s') \<and>
         pending 1 s' = [(0, key_event 4 0)] \<and>
         accel (devh s' (slot 1)) = sample 1 2 3"
    using r q acc by (intro exI[of _ s']) (simp add: key_event_def zero_event_def)
  have ks: "keys_of (pending 1 burst_world) = [key_event 4 1, key_event 4 0]"
    by (simp add: bw_q burst_queue_def keys_of_def key_event_def motion_event_def zero_event_def is_key_def)
  have h: "\<forall>r\<in>set (pending 1 burst_world). fst r = 0 \<and> ev_type (snd r) \<noteq> XWII_EVENT_GONE"
    by (simp add: bw_q burst_queue_def key_event_def motion_event_def zero_event_def)
  have len: "length (keys_of (pending 1 burst_world)) = 2"
    by (simp add: ks)
  have hw: "length (keys_of (pending 1 burst_world)) < length (waits burst_world) \<and>
      (\<forall>w\<in>set (take (length (keys_of (pending 1 burst_world))) (waits burst_world)). 0 \<le> fst w)"
    by (simp add: len bw_waits)
  from T[THEN conjunct2, THEN conjunct2] h hw
  have B0: "map_option fst (poll_n (Suc (length (keys_of (pending 1 burst_world)))) 1 burst_world) =
      Some (map (\<lambda>k. [LTable [(1, LInteger (uint (key_code k))), (2, LInteger (uint (key_state k)))]])
              (keys_of (pending 1 burst_world)) @ [[LNil]])"
    by blast
  have three: "Suc (length (keys_of (pending 1 burst_world))) = 3"
    by (simp add: len)
  from B0 have B1: "map_option fst (poll_n 3 1 burst_world) =
      Some (map (\<lambda>k. [LTable [(1, LInteger (uint (key_code k))), (2, LInteger (uint (key_state k)))]])
              (keys_of (pending 1 burst_world)) @ [[LNil]])"
    by (simp only: three)
  have B: "map_option fst (poll_n 3 1 burst_world) =
      Some [[LTable [(1, LInteger 4), (2, LInteger 1)]], [LTable [(1, LInteger 4), (2, LInteger 0)]], [LNil]]"
    unfolding B1 ks by (simp add: key_event_def zero_event_def)
  from o(3) A B show ?thesis by blast
qed

lemmas open_eval = opened_world_def l_xwii_open_def start_world_def remote_def
      null_iface_def NDEV_def get_dev_def slot_def zero_devhandle_def xwii_iface_new_def
      xwii_iface_open_def set_slot_def Let_def

text \<open>
  C1 as stated fails. With the burst of two key events pending and nothing readable
  after it, two calls return the two key events, and the third call does not return: its
  wait has no timeout. And when the first wait is interrupted, the first call returns
  nil with both key events still pending, so the third call returns a key event.
\<close>

theorem burst_needs_waits_counterexample:
  "length (keys_of (pending 1 drained_world)) = 2 \<and>
   map_option fst (poll_n 2 1 drained_world) =
     Some [[LTable [(1, LInteger 4), (2, LInteger 1)]], [LTable [(1, LInteger 4), (2, LInteger 0)]]] \<and>
   map_option fst (poll_n 3 1 drained_world) = None \<and>
   length (keys_of (pending 1 interrupted_world)) = 2 \<and>
   map_option fst (poll_n 3 1 interrupted_world) =
     Some [[LNil], [LTable [(1, LInteger 4), (2, LInteger 1)]], [LTable [(1, LInteger 4), (2, LInteger 0)]]]"
  by code_simp

section \<open>Removal of the device\<close>

text \<open>
  C2. On an open handle whose wait succeeds, when the pending results start with events
  that the loop consumes, followed by the removal event, the call returns the integer of
  \<open>XWII_EVENT_GONE\<close>, which is neither nil nor the table of a key event. In the world
  it leaves, the descriptor of the slot is \<open>-1\<close>, its event mask is 0 and \<open>fds_num\<close>
  is 0, so \<open>l_xwii_info\<close> on the handle returns 0 and a further \<open>l_xwii_poll\<close>
  returns nil and changes nothing: the signal is delivered in the call that decodes the
  event and not again. The removal is also printed on \<open>stderr\<close>.
\<close>

theorem poll_gone_invalidates:
  assumes op: "1 \<le> num" "num \<le> NDEV" "fds_num (devh s (slot num)) \<noteq> 0"
    and w: "waits s = (ret, errno) # ws" "0 \<le> ret"
    and q: "pending num s = pre @ (0, g) # rest"
    and pre: "\<forall>r\<in>set pre. passes r"
    and g: "ev_type g = XWII_EVENT_GONE"
  shows "\<exists>s'. l_xwii_poll num s = Some ([LInteger (event_code XWII_EVENT_GONE)], s') \<and>
              [LInteger (event_code XWII_EVENT_GONE)] \<noteq> [LNil] \<and>
              (\<forall>k. [LInteger (event_code XWII_EVENT_GONE)] \<noteq> [key_table k]) \<and>
              fds_fd (devh s' (slot num)) = - 1 \<and>
              fds_events (devh s' (slot num)) = 0 \<and>
              fds_num (devh s' (slot num)) = 0 \<and>
              l_xwii_info num s' = [LInteger 0] \<and>
              l_xwii_poll num s' = Some ([LNil], s') \<and>
              stderr s' = snd (absorb num pre (devh s (slot num), stderr s)) @ [Poll_removed num]"
proof -
  obtain d' lg' where ab: "absorb num pre (devh s (slot num), stderr s) = (d', lg')"
    by (cases "absorb num pre (devh s (slot num), stderr s)")
  let ?d = "d'\<lparr>fds_fd := - 1, fds_events := 0, fds_num := 0\<rparr>"
  let ?s' = "set_slot num (?d\<lparr>iface := (iface ?d)\<lparr>queue := rest\<rparr>\<rparr>)
               (s\<lparr>waits := ws, stderr := lg' @ [Poll_removed num]\<rparr>)"
  have "drain num (queue (iface (devh s (slot num)))) (devh s (slot num), stderr s)
          = drain num ((0, g) # rest) (d', lg')"
    using q by (simp only: pending_def drain_passes[OF pre] ab)
  also have "\<dots> = ([LInteger 16], rest, ?d, lg' @ [Poll_removed num])"
    by (simp add: switch_event_gone[OF g])
  finally have p: "l_xwii_poll num s = Some ([LInteger 16], ?s')"
    by (rule poll_ready[OF op w])
  have c: "fds_num (devh ?s' (slot num)) = 0" by (simp add: set_slot_def)
  show ?thesis
  proof (intro exI[of _ ?s'] conjI allI)
    show "l_xwii_poll num s = Some ([LInteger (event_code XWII_EVENT_GONE)], ?s')"
      using p by simp
    show "l_xwii_info num ?s' = [LInteger 0]" using c by (simp add: l_xwii_info_def)
    show "l_xwii_poll num ?s' = Some ([LNil], ?s')" using c by (simp add: l_xwii_poll_def)
    show "stderr ?s' = snd (absorb num pre (devh s (slot num), stderr s)) @ [Poll_removed num]"
      by (simp add: ab set_slot_def)
  qed (simp_all add: set_slot_def key_table_def)
qed

lemma gw_open: "fds_num (devh gone_world (slot 1)) \<noteq> 0"
  by code_simp

lemma gw_q: "pending 1 gone_world = gone_queue"
  by (simp add: pending_def gone_world_def open_eval)

lemma gw_waits: "waits gone_world = [(1, 0), (1, 0)]"
  by (simp add: gone_world_def open_eval)

theorem poll_gone_invalidates_witness:
  "fds_num (devh gone_world (slot 1)) \<noteq> 0 \<and>
   (\<exists>s'. l_xwii_poll 1 gone_world = Some ([LInteger 16], s') \<and>
         fds_num (devh s' (slot 1)) = 0 \<and>
         l_xwii_info 1 s' = [LInteger 0] \<and>
         l_xwii_poll 1 s' = Some ([LNil], s'))"
proof -
  have o: "(1::int) \<le> 1" "1 \<le> NDEV" "fds_num (devh gone_world (slot 1)) \<noteq> 0"
    using gw_open by (simp_all add: NDEV_def)
  have w: "waits gone_world = (1, 0) # [(1, 0)]" "(0::int) \<le> 1"
    by (simp_all add: gw_waits)
  have q: "pending 1 gone_world =
      [(0, motion_event XWII_EVENT_ACCEL (sample 1 2 3) zero_abs)]
        @ (0, zero_event\<lparr>ev_type := XWII_EVENT_GONE\<rparr>) # [(0, key_event 4 1)]"
    by (simp add: gw_q gone_queue_def)
  have p: "\<forall>r\<in>set [(0, motion_event XWII_EVENT_ACCEL (sample 1 2 3) zero_abs)]. passes r"
    by (simp add: passes_def motion_event_def zero_event_def is_key_def)
  have g: "ev_type (zero_event\<lparr>ev_type := XWII_EVENT_GONE\<rparr>) = XWII_EVENT_GONE"
    by simp
  from poll_gone_invalidates[OF o w q p g] o(3) show ?thesis
    by auto
qed

section \<open>A wait that fails\<close>

text \<open>
  C6, as amended. On an open handle, when the wait fails (\<open>ret < 0\<close>), the call returns
  nil at once, whatever \<open>errno\<close> is: the wait is not tried again in this call, no
  pending result is read and the slot is left as it was. Only when \<open>errno\<close> is not
  \<open>EINTR\<close> a line is printed on \<open>stderr\<close>.
\<close>

theorem poll_wait_failure:
  assumes "1 \<le> num" "num \<le> NDEV" "fds_num (devh s (slot num)) \<noteq> 0"
    and "waits s = (ret, errno) # ws" "ret < 0"
  shows "l_xwii_poll num s =
           Some ([LNil],
                 if errno = EINTR then s\<lparr>waits := ws\<rparr>
                 else fprintf (Poll_cannot_poll (- errno)) (s\<lparr>waits := ws\<rparr>))"
  using assms by (simp add: l_xwii_poll_def)

lemma ew_open: "fds_num (devh eintr_world (slot 1)) \<noteq> 0"
  by code_simp

lemma ew_waits: "waits eintr_world = [(- 1, 4), (1, 0)]"
  by (simp add: eintr_world_def open_eval)

theorem poll_wait_failure_witness:
  "fds_num (devh eintr_world (slot 1)) \<noteq> 0 \<and>
   l_xwii_poll 1 eintr_world = Some ([LNil], eintr_world\<lparr>waits := [(1, 0)]\<rparr>)"
proof -
  have o: "(1::int) \<le> 1" "1 \<le> NDEV" "fds_num (devh eintr_world (slot 1)) \<noteq> 0"
    using ew_open by (simp_all add: NDEV_def)
  have w: "waits eintr_world = (- 1, 4) # [(1, 0)]" "(- 1 :: int) < 0"
    by (simp_all add: ew_waits)
  from poll_wait_failure[OF o w] o(3) show ?thesis
    by (simp add: EINTR_def)
qed

text \<open>
  C6 as stated fails. With an interrupted wait followed by a wait that would succeed, and
  a key event pending, the call returns nil: the second wait is not consumed and the key
  event is still pending afterwards. Had the interrupt been retried within the call, the
  call would have behaved like the one that starts at the second wait, which returns the
  key event.
\<close>

theorem eintr_not_retried_counterexample:
  "waits eintr_world = [(- 1, EINTR), (1, 0)] \<and>
   map_option fst (l_xwii_poll 1 eintr_world) = Some [LNil] \<and>
   map_option (waits \<circ> snd) (l_xwii_poll 1 eintr_world) = Some [(1, 0)] \<and>
   map_option (length \<circ> pending 1 \<circ> snd) (l_xwii_poll 1 eintr_world) = Some 1 \<and>
   map_option fst (l_xwii_poll 1 (eintr_world\<lparr>waits := [(1, 0)]\<rparr>))
     = Some [LTable [(1, LInteger 4), (2, LInteger 1)]] \<and>
   l_xwii_poll 1 eintr_world \<noteq> l_xwii_poll 1 (eintr_world\<lparr>waits := [(1, 0)]\<rparr>)"
proof -
  have a: "waits eintr_world = [(- 1, EINTR), (1, 0)]"
    by code_simp
  have b: "map_option fst (l_xwii_poll 1 eintr_world) = Some [LNil]"
    by code_simp
  have c: "map_option (waits \<circ> snd) (l_xwii_poll 1 eintr_world) = Some [(1, 0)]"
    by code_simp
  have d: "map_option (length \<circ> pending 1 \<circ> snd) (l_xwii_poll 1 eintr_world) = Some 1"
    by code_simp
  have e: "map_option fst (l_xwii_poll 1 (eintr_world\<lparr>waits := [(1, 0)]\<rparr>))
     = Some [LTable [(1, LInteger 4), (2, LInteger 1)]]"
    by code_simp
  from b e have f: "l_xwii_poll 1 eintr_world \<noteq> l_xwii_poll 1 (eintr_world\<lparr>waits := [(1, 0)]\<rparr>)"
    by auto
  from a b c d e f show ?thesis by blast
qed




section \<open>Writing the indicators\<close>






section \<open>Reading the battery and the indicators\<close>

lemma get_leds_unroll:
  "get_leds_loop dev [0, 1, 2, 3] (0, 0) =
    (if led_get_rc dev 1 \<noteq> 0 then (led_get_rc dev 1, 0)
     else if led_get_rc dev 2 \<noteq> 0 then (led_get_rc dev 2, if led_state dev 1 then 1 else 0)
     else if led_get_rc dev 3 \<noteq> 0 then
       (led_get_rc dev 3, (if led_state dev 1 then 1 else 0) OR (if led_state dev 2 then 2 else 0))
     else (led_get_rc dev 4,
           (if led_state dev 1 then 1 else 0) OR (if led_state dev 2 then 2 else 0) OR
           (if led_state dev 3 then 4 else 0) OR
           (if led_get_rc dev 4 = 0 \<and> led_state dev 4 then 8 else 0)))"
  by (simp add: xwii_iface_get_led_def XWII_LED_def numeral_2_eq_2 numeral_3_eq_3 eval_nat_numeral)

lemma get_leds_loop_fails:
  assumes "\<exists>k\<in>{1, 2, 3, 4}. led_get_rc dev k \<noteq> 0"
  shows "fst (get_leds_loop dev [0, 1, 2, 3] (0, 0)) \<noteq> 0"
  unfolding get_leds_unroll using assms by auto

lemma get_leds_loop_all_off:
  assumes "\<forall>k\<in>{1, 2, 3, 4}. led_get_rc dev k = 0 \<and> \<not> led_state dev k"
  shows "get_leds_loop dev [0, 1, 2, 3] (0, 0) = (0, 0)"
  unfolding get_leds_unroll using assms by simp

text \<open>
  C10. For a handle that is out of range or whose slot is closed, \<open>l_xwii_get_battery\<close>
  and \<open>l_xwii_get_leds\<close> return the integer 0 and change nothing. On an open handle
  they return nil when the library call fails (for the indicators: when any of the four
  reads fails), and they return the same integer 0 when the battery reads 0 and when all
  four indicators read off. So the value 0 does not tell a closed handle from a genuine
  reading of 0, while a read failure is told apart by nil.
\<close>

theorem closed_handle_reads_zero:
  assumes closed: "\<not> (1 \<le> num \<and> num \<le> NDEV \<and> fds_num (devh s (slot num)) \<noteq> 0)"
    and op: "1 \<le> n" "n \<le> NDEV" "fds_num (devh t (slot n)) \<noteq> 0"
  shows "l_xwii_get_battery num s = ([LInteger 0], s) \<and>
         l_xwii_get_leds num s = ([LInteger 0], s) \<and>
         (fst (battery (iface (devh t (slot n)))) \<noteq> 0 \<longrightarrow>
            fst (l_xwii_get_battery n t) = [LNil]) \<and>
         (battery (iface (devh t (slot n))) = (0, 0) \<longrightarrow>
            l_xwii_get_battery n t = ([LInteger 0], t)) \<and>
         ((\<exists>k\<in>{1, 2, 3, 4}. led_get_rc (iface (devh t (slot n))) k \<noteq> 0) \<longrightarrow>
            fst (l_xwii_get_leds n t) = [LNil]) \<and>
         ((\<forall>k\<in>{1, 2, 3, 4}. led_get_rc (iface (devh t (slot n))) k = 0 \<and>
                              \<not> led_state (iface (devh t (slot n))) k) \<longrightarrow>
            l_xwii_get_leds n t = ([LInteger 0], t))"
proof (intro conjI impI)
  show "l_xwii_get_battery num s = ([LInteger 0], s)"
    unfolding l_xwii_get_battery_def using closed by (simp only: if_False)
  show "l_xwii_get_leds num s = ([LInteger 0], s)"
    unfolding l_xwii_get_leds_def using closed by (simp only: if_False)
next
  assume "fst (battery (iface (devh t (slot n)))) \<noteq> 0"
  then show "fst (l_xwii_get_battery n t) = [LNil]"
    using op by (auto simp: l_xwii_get_battery_def split: prod.splits)
next
  assume "battery (iface (devh t (slot n))) = (0, 0)"
  then show "l_xwii_get_battery n t = ([LInteger 0], t)"
    using op by (simp add: l_xwii_get_battery_def)
next
  assume "\<exists>k\<in>{1, 2, 3, 4}. led_get_rc (iface (devh t (slot n))) k \<noteq> 0"
  from get_leds_loop_fails[OF this] show "fst (l_xwii_get_leds n t) = [LNil]"
    unfolding l_xwii_get_leds_def using op by (auto split: prod.splits)
next
  assume "\<forall>k\<in>{1, 2, 3, 4}. led_get_rc (iface (devh t (slot n))) k = 0 \<and>
                              \<not> led_state (iface (devh t (slot n))) k"
  from get_leds_loop_all_off[OF this] show "l_xwii_get_leds n t = ([LInteger 0], t)"
    unfolding l_xwii_get_leds_def using op by simp
qed

lemma pw_open: "fds_num (devh plain_world (slot 1)) \<noteq> 0"
  by code_simp

lemma nbw_open: "fds_num (devh no_battery_world (slot 1)) \<noteq> 0"
  by code_simp

lemma pw_iface:
  "battery (iface (devh plain_world (slot 1))) = (0, 0)"
  "led_get_rc (iface (devh plain_world (slot 1))) = (\<lambda>_. 0)"
  "led_state (iface (devh plain_world (slot 1))) = (\<lambda>_. False)"
  by (simp_all add: plain_world_def open_eval)

lemma nbw_battery: "battery (iface (devh no_battery_world (slot 1))) = (- 5, 0)"
  by (simp add: no_battery_world_def open_eval)

theorem closed_handle_reads_zero_witness:
  "\<not> (1 \<le> (0::int) \<and> 0 \<le> NDEV \<and> fds_num (devh plain_world (slot 0)) \<noteq> 0) \<and>
   fds_num (devh plain_world (slot 1)) \<noteq> 0 \<and>
   fst (l_xwii_get_battery 0 plain_world) = [LInteger 0] \<and>
   fst (l_xwii_get_leds 0 plain_world) = [LInteger 0] \<and>
   fst (l_xwii_get_battery 1 plain_world) = [LInteger 0] \<and>
   fst (l_xwii_get_leds 1 plain_world) = [LInteger 0] \<and>
   fst (l_xwii_get_battery 1 no_battery_world) = [LNil]"
proof -
  have c: "\<not> (1 \<le> (0::int) \<and> 0 \<le> NDEV \<and> fds_num (devh plain_world (slot 0)) \<noteq> 0)"
    by simp
  have o: "(1::int) \<le> 1" "1 \<le> NDEV" "fds_num (devh plain_world (slot 1)) \<noteq> 0"
    using pw_open by (simp_all add: NDEV_def)
  have o': "(1::int) \<le> 1" "1 \<le> NDEV" "fds_num (devh no_battery_world (slot 1)) \<noteq> 0"
    using nbw_open by (simp_all add: NDEV_def)
  from closed_handle_reads_zero[OF c o] closed_handle_reads_zero[OF c o'] c o(3)
  show ?thesis
    by (simp add: pw_iface nbw_battery)
qed

section \<open>Opening a device\<close>

lemma get_dev_loop_None:
  "get_dev_loop i num ents = None \<longleftrightarrow> num \<le> i \<or> i + int (length ents) < num"
  by (induction ents arbitrary: i) auto

lemma get_dev_None:
  "(case monitor s of None \<Rightarrow> True | Some ents \<Rightarrow> int (length ents) < num) \<Longrightarrow> get_dev num s = None"
  by (auto simp: get_dev_def get_dev_loop_None split: option.splits)

lemma open_not_found:
  assumes "num < 1 \<or> NDEV < num \<or> get_dev num s = None"
  shows "l_xwii_open num s = ([LInteger 0], fprintf (Open_cannot_find num) s)"
  using assms by (auto simp: l_xwii_open_def)

lemma open_already_open:
  assumes "1 \<le> num" "num \<le> NDEV" "fds_num (devh s (slot num)) \<noteq> 0"
  shows "l_xwii_open num s = ([LInteger 0], s) \<or>
         l_xwii_open num s = ([LInteger 0], fprintf (Open_cannot_find num) s)"
  using assms by (cases "get_dev num s") (auto simp: l_xwii_open_def)

lemma open_new_fails:
  assumes "1 \<le> num" "num \<le> NDEV" "fds_num (devh s (slot num)) = 0" "get_dev num s = Some path"
    and "fst (hw s path) \<noteq> 0"
  shows "l_xwii_open num s = ([LInteger 0], fprintf (Open_cannot_create path (fst (hw s path))) s)"
  using assms by (auto simp: l_xwii_open_def xwii_iface_new_def split: prod.splits)

lemma open_open_fails:
  assumes "1 \<le> num" "num \<le> NDEV" "fds_num (devh s (slot num)) = 0" "get_dev num s = Some path"
    and "fst (hw s path) = 0"
    and "open_fn (snd (hw s path)) (available (snd (hw s path)) OR XWII_IFACE_WRITABLE)
           (opened (snd (hw s path))) = (ret, m)" "ret \<noteq> 0"
  shows "l_xwii_open num s =
           ([LInteger 0],
            (fprintf (Open_cannot_open path ret) s)
              \<lparr>devh := (devh s)(slot num :=
                   (devh s (slot num))\<lparr>iface := (snd (hw s path))\<lparr>ident := next_id s, opened := m\<rparr>\<rparr>),
               next_id := Suc (next_id s)\<rparr>)"
  using assms
  by (cases "hw s path")
     (simp add: l_xwii_open_def xwii_iface_new_def xwii_iface_open_def xwii_iface_unref_def
        set_slot_def fprintf_def)

text \<open>
  C5. \<open>l_xwii_open\<close> returns 0 and leaves the table and the live library objects as
  they were when \<open>num\<close> is outside \<open>1..NDEV\<close>, when the enumeration cannot be
  started or yields fewer than \<open>num\<close> entries, and when the slot is already open.
  When the slot is closed and the device is found, but \<open>xwii_iface_new\<close> or
  \<open>xwii_iface_open\<close> fails, it returns 0, the slot is still closed, every other slot
  is unchanged, the slot differs at most in its object pointer, and the live library
  objects are those of before: the object that was created is released.
\<close>

theorem open_failures:
  "(num < 1 \<or> NDEV < num \<or>
      (case monitor s of None \<Rightarrow> True | Some ents \<Rightarrow> int (length ents) < num) \<longrightarrow>
      fst (l_xwii_open num s) = [LInteger 0] \<and>
      devh (snd (l_xwii_open num s)) = devh s \<and>
      live (snd (l_xwii_open num s)) = live s)
   \<and> (1 \<le> num \<and> num \<le> NDEV \<and> fds_num (devh s (slot num)) \<noteq> 0 \<longrightarrow>
      fst (l_xwii_open num s) = [LInteger 0] \<and>
      devh (snd (l_xwii_open num s)) = devh s \<and>
      live (snd (l_xwii_open num s)) = live s)
   \<and> (1 \<le> num \<and> num \<le> NDEV \<and> fds_num (devh s (slot num)) = 0 \<and> get_dev num s = Some path \<and>
      (fst (hw s path) \<noteq> 0 \<or>
       fst (open_fn (snd (hw s path)) (available (snd (hw s path)) OR XWII_IFACE_WRITABLE)
              (opened (snd (hw s path)))) \<noteq> 0) \<longrightarrow>
      fst (l_xwii_open num s) = [LInteger 0] \<and>
      fds_num (devh (snd (l_xwii_open num s)) (slot num)) = 0 \<and>
      live (snd (l_xwii_open num s)) = live s \<and>
      (\<forall>i. i \<noteq> slot num \<longrightarrow> devh (snd (l_xwii_open num s)) i = devh s i) \<and>
      (devh (snd (l_xwii_open num s)) (slot num))\<lparr>iface := iface (devh s (slot num))\<rparr>
        = devh s (slot num))"
proof (intro conjI impI)
  assume h: "num < 1 \<or> NDEV < num \<or>
      (case monitor s of None \<Rightarrow> True | Some ents \<Rightarrow> int (length ents) < num)"
  then have "num < 1 \<or> NDEV < num \<or> get_dev num s = None"
    using get_dev_None[where s = s and num = num] by auto
  note e = open_not_found[OF this]
  show "fst (l_xwii_open num s) = [LInteger 0]" by (simp add: e)
  show "devh (snd (l_xwii_open num s)) = devh s" by (simp add: e fprintf_def)
  show "live (snd (l_xwii_open num s)) = live s" by (simp add: e fprintf_def)
next
  assume h: "1 \<le> num \<and> num \<le> NDEV \<and> fds_num (devh s (slot num)) \<noteq> 0"
  then have e: "l_xwii_open num s = ([LInteger 0], s) \<or>
         l_xwii_open num s = ([LInteger 0], fprintf (Open_cannot_find num) s)"
    using open_already_open[of num s] by simp
  from e show "fst (l_xwii_open num s) = [LInteger 0]" by auto
  from e show "devh (snd (l_xwii_open num s)) = devh s" by (auto simp: fprintf_def)
  from e show "live (snd (l_xwii_open num s)) = live s" by (auto simp: fprintf_def)
next
  assume h: "1 \<le> num \<and> num \<le> NDEV \<and> fds_num (devh s (slot num)) = 0 \<and> get_dev num s = Some path \<and>
      (fst (hw s path) \<noteq> 0 \<or>
       fst (open_fn (snd (hw s path)) (available (snd (hw s path)) OR XWII_IFACE_WRITABLE)
              (opened (snd (hw s path)))) \<noteq> 0)"
  obtain ret m where om: "open_fn (snd (hw s path)) (available (snd (hw s path)) OR XWII_IFACE_WRITABLE)
           (opened (snd (hw s path))) = (ret, m)"
    by (cases "open_fn (snd (hw s path)) (available (snd (hw s path)) OR XWII_IFACE_WRITABLE)
           (opened (snd (hw s path)))")
  let ?s' = "(fprintf (Open_cannot_open path ret) s)
              \<lparr>devh := (devh s)(slot num :=
                   (devh s (slot num))\<lparr>iface := (snd (hw s path))\<lparr>ident := next_id s, opened := m\<rparr>\<rparr>),
               next_id := Suc (next_id s)\<rparr>"
  from h om have e: "l_xwii_open num s = ([LInteger 0], fprintf (Open_cannot_create path (fst (hw s path))) s)
      \<or> l_xwii_open num s = ([LInteger 0], ?s')"
    using open_new_fails[of num s path] open_open_fails[of num s path ret m] by auto
  from e show "fst (l_xwii_open num s) = [LInteger 0]" by auto
  from e h show "fds_num (devh (snd (l_xwii_open num s)) (slot num)) = 0"
    by (auto simp: fprintf_def)
  from e show "live (snd (l_xwii_open num s)) = live s" by (auto simp: fprintf_def)
  from e show "\<forall>i. i \<noteq> slot num \<longrightarrow> devh (snd (l_xwii_open num s)) i = devh s i"
    by (auto simp: fprintf_def)
  from e show "(devh (snd (l_xwii_open num s)) (slot num))\<lparr>iface := iface (devh s (slot num))\<rparr>
        = devh s (slot num)"
    by (auto simp: fprintf_def)
qed

theorem open_failures_witness:
  "fst (l_xwii_open 11 (start_world (remote 7 []) [])) = [LInteger 0] \<and>
   devh (snd (l_xwii_open 11 (start_world (remote 7 []) []))) = devh (start_world (remote 7 []) []) \<and>
   fst (l_xwii_open 2 (start_world (remote 7 []) [])) = [LInteger 0] \<and>
   devh (snd (l_xwii_open 2 (start_world (remote 7 []) []))) = devh (start_world (remote 7 []) []) \<and>
   fst (l_xwii_open 1 plain_world) = [LInteger 0] \<and>
   devh (snd (l_xwii_open 1 plain_world)) = devh plain_world \<and>
   fst (l_xwii_open 1 new_fails_world) = [LInteger 0] \<and>
   fds_num (devh (snd (l_xwii_open 1 new_fails_world)) (slot 1)) = 0 \<and>
   live (snd (l_xwii_open 1 new_fails_world)) = live new_fails_world \<and>
   fst (l_xwii_open 1 open_fails_world) = [LInteger 0] \<and>
   fds_num (devh (snd (l_xwii_open 1 open_fails_world)) (slot 1)) = 0 \<and>
   live (snd (l_xwii_open 1 open_fails_world)) = live open_fails_world"
proof -
  let ?W = "start_world (remote 7 []) []"
  have a: "(11::int) < 1 \<or> NDEV < 11 \<or>
      (case monitor ?W of None \<Rightarrow> True | Some ents \<Rightarrow> int (length ents) < 11)"
    by (simp add: NDEV_def)
  have b: "(2::int) < 1 \<or> NDEV < 2 \<or>
      (case monitor ?W of None \<Rightarrow> True | Some ents \<Rightarrow> int (length ents) < 2)"
    by (simp add: start_world_def)
  have c: "(1::int) \<le> 1 \<and> 1 \<le> NDEV \<and> fds_num (devh plain_world (slot 1)) \<noteq> 0"
    using pw_open by (simp add: NDEV_def)
  have d: "(1::int) \<le> 1 \<and> 1 \<le> NDEV \<and> fds_num (devh new_fails_world (slot 1)) = 0 \<and>
      get_dev 1 new_fails_world = Some ''wiimote1'' \<and>
      (fst (hw new_fails_world ''wiimote1'') \<noteq> 0 \<or>
       fst (open_fn (snd (hw new_fails_world ''wiimote1''))
              (available (snd (hw new_fails_world ''wiimote1'')) OR XWII_IFACE_WRITABLE)
              (opened (snd (hw new_fails_world ''wiimote1'')))) \<noteq> 0)"
    by (simp add: NDEV_def new_fails_world_def start_world_def zero_devhandle_def get_dev_def)
  have e: "(1::int) \<le> 1 \<and> 1 \<le> NDEV \<and> fds_num (devh open_fails_world (slot 1)) = 0 \<and>
      get_dev 1 open_fails_world = Some ''wiimote1'' \<and>
      (fst (hw open_fails_world ''wiimote1'') \<noteq> 0 \<or>
       fst (open_fn (snd (hw open_fails_world ''wiimote1''))
              (available (snd (hw open_fails_world ''wiimote1'')) OR XWII_IFACE_WRITABLE)
              (opened (snd (hw open_fails_world ''wiimote1'')))) \<noteq> 0)"
    by (simp add: NDEV_def open_fails_world_def start_world_def zero_devhandle_def get_dev_def)
  from open_failures[of 11 ?W, THEN conjunct1, rule_format, OF a]
       open_failures[of 2 ?W, THEN conjunct1, rule_format, OF b]
       open_failures[of 1 plain_world, THEN conjunct2, THEN conjunct1, rule_format, OF c]
       open_failures[of 1 new_fails_world "''wiimote1''", THEN conjunct2, THEN conjunct2, rule_format, OF d]
       open_failures[of 1 open_fails_world "''wiimote1''", THEN conjunct2, THEN conjunct2, rule_format, OF e]
  show ?thesis by simp
qed

text \<open>
  What a successful \<open>l_xwii_open\<close> writes into the slot: the four \<open>memset\<close> fields
  are zero, the descriptor is recorded, and the arrays \<open>ir\<close>, \<open>pro\<close> and \<open>board\<close>
  are those the slot held before.
\<close>

lemma open_succeeds:
  assumes "1 \<le> num" "num \<le> NDEV" "fds_num (devh s (slot num)) = 0" "get_dev num s = Some path"
    and "hw s path = (0, obj)"
    and "open_fn obj (available obj OR XWII_IFACE_WRITABLE) (opened obj) = (0, m)"
  shows "fst (l_xwii_open num s) = [LInteger num]"
    and "devh (snd (l_xwii_open num s)) (slot num) =
           (devh s (slot num))
             \<lparr>iface := obj\<lparr>ident := next_id s, opened := m\<rparr>,
              fds_num := 1, fds_fd := get_fd obj, fds_events := POLLIN,
              accel := zero_abs, motion := zero_abs,
              nunchuk_accel := zero_abs, nunchuk_stick := zero_abs\<rparr>"
  using assms
  by (simp_all add: l_xwii_open_def xwii_iface_new_def xwii_iface_open_def set_slot_def
        fprintf_def Let_def)

lemma open_keeps_ir_pro_board:
  assumes "1 \<le> num" "num \<le> NDEV" "fds_num (devh s (slot num)) = 0" "get_dev num s = Some path"
    and "hw s path = (0, obj)"
    and "open_fn obj (available obj OR XWII_IFACE_WRITABLE) (opened obj) = (0, m)"
  shows "ir (devh (snd (l_xwii_open num s)) (slot num)) = ir (devh s (slot num))"
    and "pro (devh (snd (l_xwii_open num s)) (slot num)) = pro (devh s (slot num))"
    and "board (devh (snd (l_xwii_open num s)) (slot num)) = board (devh s (slot num))"
  by (simp_all add: open_succeeds(2)[OF assms])

text \<open>
  C4 fails on the code. A session on index 1 reads an accelerometer sample and a camera
  sample \<open>(5, 6)\<close>, so \<open>l_xwii_ir\<close> shows that sample; the session is closed and
  index 1 is opened again, which succeeds. In the new session \<open>l_xwii_accel\<close> shows
  zeros, but \<open>l_xwii_ir\<close> still shows the sample of the session before: the reset of
  \<open>l_xwii_open\<close> covers \<open>accel\<close>, \<open>motion\<close>, \<open>nunchuk_accel\<close> and
  \<open>nunchuk_stick\<close> only.
\<close>

theorem reopen_keeps_ir_samples:
  "l_xwii_ir 1 (snd (the (l_xwii_poll 1 (opened_world (remote 7 leak_queue) [(1, 0)])))) =
     [LTable [(1, LInteger 5), (2, LInteger 6), (3, LInteger 5), (4, LInteger 6),
              (5, LInteger 5), (6, LInteger 6), (7, LInteger 5), (8, LInteger 6)]] \<and>
   fst (l_xwii_open 1 (snd (l_xwii_close 1 (snd (the (l_xwii_poll 1
       (opened_world (remote 7 leak_queue) [(1, 0)]))))))) = [LInteger 1] \<and>
   l_xwii_accel 1 leak_world = [LTable [(1, LInteger 0), (2, LInteger 0), (3, LInteger 0)]] \<and>
   l_xwii_ir 1 leak_world =
     [LTable [(1, LInteger 5), (2, LInteger 6), (3, LInteger 5), (4, LInteger 6),
              (5, LInteger 5), (6, LInteger 6), (7, LInteger 5), (8, LInteger 6)]]"
  by code_simp

section \<open>The motion accessors\<close>

text \<open>
  Every accessor answers nil on a handle that is out of range or closed, and when the
  bit it tests is not among the opened interfaces. The bit tested by \<open>l_xwii_pro_stick\<close>
  and by \<open>l_xwii_board\<close> is \<open>XWII_IFACE_CORE\<close>: with that bit set they answer from
  the cache, whatever the controller and balance-board bits are.
\<close>

lemma accessors_closed:
  assumes "\<not> (1 \<le> num \<and> num \<le> NDEV \<and> fds_num (devh s (slot num)) \<noteq> 0)"
  shows "l_xwii_accel num s = [LNil]" "l_xwii_ir num s = [LNil]"
    "l_xwii_motion_plus num s = [LNil]" "l_xwii_nunchuk_accel num s = [LNil]"
    "l_xwii_nunchuk_stick num s = [LNil]" "l_xwii_pro_stick num s = [LNil]"
    "l_xwii_board num s = [LNil]"
  using assms
  by (auto simp: l_xwii_accel_def l_xwii_ir_def l_xwii_motion_plus_def l_xwii_nunchuk_accel_def
      l_xwii_nunchuk_stick_def l_xwii_pro_stick_def l_xwii_board_def)

lemma accessors_gate:
  "opened (iface (devh s (slot num))) AND XWII_IFACE_CORE = 0 \<Longrightarrow>
     l_xwii_accel num s = [LNil] \<and> l_xwii_ir num s = [LNil] \<and>
     l_xwii_pro_stick num s = [LNil] \<and> l_xwii_board num s = [LNil]"
  "opened (iface (devh s (slot num))) AND XWII_IFACE_MOTION_PLUS = 0 \<Longrightarrow>
     l_xwii_motion_plus num s = [LNil]"
  "opened (iface (devh s (slot num))) AND XWII_IFACE_NUNCHUK = 0 \<Longrightarrow>
     l_xwii_nunchuk_accel num s = [LNil] \<and> l_xwii_nunchuk_stick num s = [LNil]"
  by (simp_all add: l_xwii_accel_def l_xwii_ir_def l_xwii_motion_plus_def l_xwii_nunchuk_accel_def
      l_xwii_nunchuk_stick_def l_xwii_pro_stick_def l_xwii_board_def)

lemma board_ignores_board_bit:
  assumes "1 \<le> num" "num \<le> NDEV" "fds_num (devh s (slot num)) \<noteq> 0"
    and "opened (iface (devh s (slot num))) AND XWII_IFACE_CORE \<noteq> 0"
  shows "l_xwii_board num s = [push_xs [0, 1, 2, 3] (board (devh s (slot num)))]"
    and "l_xwii_pro_stick num s = [push_pairs [0, 1] (pro (devh s (slot num)))]"
  using assms by (simp_all add: l_xwii_board_def l_xwii_pro_stick_def)

text \<open>
  C3 fails on the code. On an opened plain remote the capability mask is 7 and the
  opened interfaces have neither the classic-controller bit, nor the pro-controller bit,
  nor the balance-board bit; yet \<open>l_xwii_pro_stick\<close> and \<open>l_xwii_board\<close> return
  tables of zeros instead of nil. The accessors of the motion-rate sensor and of the
  nunchuk, whose bits are absent too, return nil.
\<close>

theorem pro_stick_and_board_gated_by_core:
  "l_xwii_info 1 plain_world = [LInteger 7] \<and>
   opened (iface (devh plain_world (slot 1))) = 7 \<and>
   opened (iface (devh plain_world (slot 1))) AND XWII_IFACE_CLASSIC_CONTROLLER = 0 \<and>
   opened (iface (devh plain_world (slot 1))) AND XWII_IFACE_PRO_CONTROLLER = 0 \<and>
   opened (iface (devh plain_world (slot 1))) AND XWII_IFACE_BALANCE_BOARD = 0 \<and>
   l_xwii_pro_stick 1 plain_world =
     [LTable [(1, LInteger 0), (2, LInteger 0), (3, LInteger 0), (4, LInteger 0)]] \<and>
   l_xwii_board 1 plain_world =
     [LTable [(1, LInteger 0), (2, LInteger 0), (3, LInteger 0), (4, LInteger 0)]] \<and>
   l_xwii_motion_plus 1 plain_world = [LNil] \<and>
   l_xwii_nunchuk_accel 1 plain_world = [LNil] \<and>
   l_xwii_nunchuk_stick 1 plain_world = [LNil]"
  by code_simp

text \<open>
  C7 fails on the code. On a remote with a classic controller and no balance board, after
  a poll that stored the sample \<open>(7, 8), (9, 10)\<close> of the controller's sticks,
  \<open>l_xwii_board\<close> returns a table (of the zeros in \<open>board\<close>) although the
  balance-board bit is not set, and the \<open>board\<close> method of the Pd object, which calls
  \<open>xwii_pro_stick\<close>, sends the stick sample under the selector \<open>board\<close>.
\<close>

theorem board_uses_core_gate_and_stick_cache:
  "l_xwii_info 1 classic_world = [LInteger 0x401] \<and>
   opened (iface (devh classic_world (slot 1))) AND XWII_IFACE_BALANCE_BOARD = 0 \<and>
   l_xwii_board 1 classic_world =
     [LTable [(1, LInteger 0), (2, LInteger 0), (3, LInteger 0), (4, LInteger 0)]] \<and>
   in_1_board 1 classic_world =
     Some (2, ''board'', LTable [(1, LInteger 7), (2, LInteger 8), (3, LInteger 9), (4, LInteger 10)]) \<and>
   in_1_prostick 1 classic_world =
     Some (2, ''prostick'', LTable [(1, LInteger 7), (2, LInteger 8), (3, LInteger 9), (4, LInteger 10)])"
  by code_simp

section \<open>Listing the devices\<close>

text \<open>
  With an enumeration, \<open>l_xwii_list\<close> returns one table that holds every entry, in
  order, under the keys \<open>1, 2, ...\<close>.
\<close>

lemma list_loop_keys:
  assumes "\<forall>k\<in>fst ` set t. k \<le> i"
  shows "list_loop i ents t = t @ map (\<lambda>(j, ent). (i + 1 + int j, LString ent)) (enumerate 0 ents)"
  using assms
proof (induction ents arbitrary: i t)
  case Nil
  then show ?case by simp
next
  case (Cons ent ents)
  have "lua_settable t (i + 1) (LString ent) = t @ [(i + 1, LString ent)]"
    using Cons.prems by (induction t) (auto simp: lua_settable_def)
  moreover have "\<forall>k\<in>fst ` set (t @ [(i + 1, LString ent)]). k \<le> i + 1"
    using Cons.prems by auto
  ultimately show ?case
    using Cons.IH[of "t @ [(i + 1, LString ent)]" "i + 1"]
    by (simp add: enumerate_Suc_eq split_def comp_def)
qed

lemma list_with_monitor:
  "monitor s = Some ents \<Longrightarrow>
   l_xwii_list s = ([LTable (map (\<lambda>(j, ent). (1 + int j, LString ent)) (enumerate 0 ents))], s)"
  by (simp add: l_xwii_list_def list_loop_keys)

text \<open>
  C9 fails on the code. When the enumeration cannot be started, \<open>l_xwii_list\<close> prints
  a line on \<open>stderr\<close> and returns no value at all (\<open>return 0\<close>), not an empty
  table: the caller's variable is nil, and the \<open>devlist\<close> method of the Pd object,
  which takes the length of the result, raises a Lua error.
\<close>

theorem list_without_monitor_returns_nothing:
  "fst (l_xwii_list no_monitor_world) = [] \<and>
   stderr (snd (l_xwii_list no_monitor_world)) = [List_cannot_create_monitor] \<and>
   fst (in_1_devlist no_monitor_world) = Inl Attempt_to_get_length"
  by code_simp

end
